theory Spec2Isabelle
  imports Complex_Main "HOL-Library.Multiset"
begin

section \<open>Python values and exceptions\<close>

text \<open>
  The two modules (\<^verbatim>\<open>Create_Training_Data.py\<close> and \<^verbatim>\<open>PCA_Kinematics.py\<close>) are 3D Slicer
  widgets that drive VTK filters.  The VTK filters themselves (normal computation, cleaning,
  smoothing, decimation, iterative closest point, PCA analysis, file readers) are external
  library code: they enter the model as parameters.  Everything the Python code does around
  them (the order of the calls, list indexing, the loops, the checks and the raised
  exceptions) is modelled as written.
\<close>

datatype error = IndexError | ValueError

definition bindE :: "error + 'a \<Rightarrow> ('a \<Rightarrow> error + 'b) \<Rightarrow> error + 'b" where
  "bindE m f = (case m of Inl e \<Rightarrow> Inl e | Inr x \<Rightarrow> f x)"

text \<open>Python list indexing: a negative index counts from the end, anything else out of
  range raises \<^verbatim>\<open>IndexError\<close>.\<close>

definition py_index :: "'a list \<Rightarrow> int \<Rightarrow> error + nat" where
  "py_index xs i =
     (if 0 \<le> i \<and> i < int (length xs) then Inr (nat i)
      else if i < 0 \<and> - int (length xs) \<le> i then Inr (nat (i + int (length xs)))
      else Inl IndexError)"

definition getitem :: "'a list \<Rightarrow> int \<Rightarrow> error + 'a" where
  "getitem xs i = bindE (py_index xs i) (\<lambda>k. Inr (xs ! k))"

definition setitem :: "'a list \<Rightarrow> int \<Rightarrow> 'a \<Rightarrow> error + 'a list" where
  "setitem xs i v = bindE (py_index xs i) (\<lambda>k. Inr (xs[k := v]))"

text \<open>\<^verbatim>\<open>int(x)\<close> on a float truncates towards zero.\<close>

definition int_of_float :: "real \<Rightarrow> int" where
  "int_of_float x = (if 0 \<le> x then \<lfloor>x\<rfloor> else \<lceil>x\<rceil>)"

text \<open>\<^verbatim>\<open>os.path.join(d, f)\<close>, and the slice \<^verbatim>\<open>s[-3:]\<close> (the whole string when it is
  shorter than three characters).\<close>

definition path_join :: "string \<Rightarrow> string \<Rightarrow> string" where
  "path_join d f = d @ ''/'' @ f"

definition last3 :: "string \<Rightarrow> string" where
  "last3 s = drop (length s - 3) s"

section \<open>Natural sorting of file names\<close>

text \<open>
  Both widgets sort a directory listing with \<^verbatim>\<open>files.sort(key=self.alphanum_key)\<close>, where
  \<^verbatim>\<open>alphanum_key(s) = [tryint(c) for c in re.split('([0-9]+)', s)]\<close>.
  The split with a capturing group scans the string from the left and returns, in turn, a
  text chunk (possibly empty), a maximal run of the digits 0-9, a text chunk, and so on; it
  always ends with a text chunk.  File names are byte strings.
\<close>

text \<open>The characters \<^verbatim>\<open>[0-9]\<close> of the pattern, and the white space that \<^verbatim>\<open>int()\<close> strips.\<close>

definition is_digit :: "char \<Rightarrow> bool" where
  "is_digit c \<longleftrightarrow> 48 \<le> (of_char c :: nat) \<and> (of_char c :: nat) \<le> 57"

definition is_space :: "char \<Rightarrow> bool" where
  "is_space c \<longleftrightarrow> (of_char c :: nat) \<in> {9, 10, 11, 12, 13, 32}"

text \<open>The scanner of \<^verbatim>\<open>re.split('([0-9]+)', s)\<close>: \<open>text_chunk acc s\<close> is inside a text chunk
  that has collected \<open>acc\<close>, \<open>digit_chunk acc s\<close> inside a run of digits.\<close>

fun text_chunk :: "string \<Rightarrow> string \<Rightarrow> string list"
  and digit_chunk :: "string \<Rightarrow> string \<Rightarrow> string list" where
  "text_chunk acc [] = [acc]"
| "text_chunk acc (c # cs) =
     (if is_digit c then acc # digit_chunk [c] cs else text_chunk (acc @ [c]) cs)"
| "digit_chunk acc [] = [acc, []]"
| "digit_chunk acc (c # cs) =
     (if is_digit c then digit_chunk (acc @ [c]) cs else acc # text_chunk [c] cs)"

definition re_split_digits :: "string \<Rightarrow> string list" where
  "re_split_digits s = text_chunk [] s"

text \<open>\<^verbatim>\<open>int(s)\<close> on a string: white space around, an optional sign, then at least one digit and
  only digits; anything else raises \<^verbatim>\<open>ValueError\<close> (\<open>None\<close>).  \<^verbatim>\<open>tryint\<close> catches the exception
  and returns the string itself.\<close>

definition digit_value :: "char \<Rightarrow> int" where
  "digit_value c = int (of_char c) - 48"

definition decimal :: "string \<Rightarrow> int" where
  "decimal ds = foldl (\<lambda>n c. 10 * n + digit_value c) 0 ds"

definition strip :: "string \<Rightarrow> string" where
  "strip s = rev (dropWhile is_space (rev (dropWhile is_space s)))"

definition py_int :: "string \<Rightarrow> int option" where
  "py_int s =
     (let t = strip s;
          (sgn, ds) = (case t of
                         c # r \<Rightarrow> if c = CHR ''-'' then (- 1, r)
                                  else if c = CHR ''+'' then (1, r) else (1, t)
                       | [] \<Rightarrow> (1, t))
      in if ds \<noteq> [] \<and> list_all is_digit ds then Some (sgn * decimal ds) else None)"

datatype chunk = Num int | Str string

definition tryint :: "string \<Rightarrow> chunk" where
  "tryint s = (case py_int s of Some n \<Rightarrow> Num n | None \<Rightarrow> Str s)"

definition alphanum_key :: "string \<Rightarrow> chunk list" where
  "alphanum_key s = map tryint (re_split_digits s)"

text \<open>Python's \<^verbatim>\<open><\<close>: on strings it is the lexicographic order of the character codes; on
  lists it compares the first pair of unequal elements, and a proper prefix is smaller.  A
  number and a string at the same position are ordered number first (Python 2).\<close>

fun str_lt :: "string \<Rightarrow> string \<Rightarrow> bool" where
  "str_lt [] [] = False"
| "str_lt [] (b # bs) = True"
| "str_lt (a # as) [] = False"
| "str_lt (a # as) (b # bs) =
     (if a = b then str_lt as bs else (of_char a :: nat) < of_char b)"

fun chunk_lt :: "chunk \<Rightarrow> chunk \<Rightarrow> bool" where
  "chunk_lt (Num a) (Num b) = (a < b)"
| "chunk_lt (Str a) (Str b) = str_lt a b"
| "chunk_lt (Num a) (Str b) = True"
| "chunk_lt (Str a) (Num b) = False"

fun key_lt :: "chunk list \<Rightarrow> chunk list \<Rightarrow> bool" where
  "key_lt [] [] = False"
| "key_lt [] (y # ys) = True"
| "key_lt (x # xs) [] = False"
| "key_lt (x # xs) (y # ys) = (if x = y then key_lt xs ys else chunk_lt x y)"

text \<open>\<^verbatim>\<open>list.sort(key=...)\<close> is a stable sort that compares the keys with \<^verbatim>\<open><\<close> only; the
  result is that of a stable insertion sort.\<close>

fun insort_stable :: "('a \<Rightarrow> chunk list) \<Rightarrow> 'a \<Rightarrow> 'a list \<Rightarrow> 'a list" where
  "insort_stable key x [] = [x]"
| "insort_stable key x (y # ys) =
     (if key_lt (key y) (key x) then y # insort_stable key x ys else x # y # ys)"

definition list_sort :: "('a \<Rightarrow> chunk list) \<Rightarrow> 'a list \<Rightarrow> 'a list" where
  "list_sort key xs = foldr (insort_stable key) xs []"

lemma str_lt_irrefl: "\<not> str_lt a a"
  by (induction a) auto

lemma str_lt_trans: "str_lt a b \<Longrightarrow> str_lt b c \<Longrightarrow> str_lt a c"
proof (induction a b arbitrary: c rule: str_lt.induct)
  case (2 b bs)
  then show ?case by (cases c) auto
next
  case (4 a as b bs)
  then show ?case by (cases c) (auto split: if_splits)
qed auto

lemma of_char_nat_neq: "a \<noteq> b \<Longrightarrow> (of_char a :: nat) \<noteq> of_char b"
  by simp

lemma of_char_lt_total:
  "a \<noteq> b \<Longrightarrow> (of_char a :: nat) < of_char b \<or> (of_char b :: nat) < of_char a"
  using of_char_nat_neq [of a b] by linarith

lemma str_lt_total: "a \<noteq> b \<Longrightarrow> str_lt a b \<or> str_lt b a"
  by (induction a b rule: str_lt.induct) (auto dest: of_char_lt_total)

lemma chunk_lt_irrefl: "\<not> chunk_lt x x"
  by (cases x) (auto simp: str_lt_irrefl)

lemma chunk_lt_trans: "chunk_lt x y \<Longrightarrow> chunk_lt y z \<Longrightarrow> chunk_lt x z"
  by (cases x; cases y; cases z) (auto intro: str_lt_trans)

lemma chunk_lt_total: "x \<noteq> y \<Longrightarrow> chunk_lt x y \<or> chunk_lt y x"
  by (cases x; cases y) (auto dest: str_lt_total)

lemma chunk_lt_asym: "chunk_lt x y \<Longrightarrow> \<not> chunk_lt y x"
  using chunk_lt_trans chunk_lt_irrefl by blast

lemma key_lt_irrefl: "\<not> key_lt a a"
  by (induction a) auto

lemma key_lt_trans: "key_lt a b \<Longrightarrow> key_lt b c \<Longrightarrow> key_lt a c"
proof (induction a b arbitrary: c rule: key_lt.induct)
  case (2 y ys)
  then show ?case by (cases c) auto
next
  case (4 x xs y ys)
  then show ?case
    by (cases c) (auto split: if_splits intro: chunk_lt_trans dest: chunk_lt_asym simp: chunk_lt_irrefl)
qed auto

lemma key_lt_total: "a \<noteq> b \<Longrightarrow> key_lt a b \<or> key_lt b a"
  by (induction a b rule: key_lt.induct) (auto dest: chunk_lt_total)

lemma key_le_trans: "\<not> key_lt b a \<Longrightarrow> \<not> key_lt c b \<Longrightarrow> \<not> key_lt c a"
  by (metis key_lt_total key_lt_trans)

lemma set_insort_stable: "set (insort_stable key x ys) = insert x (set ys)"
  by (induction ys) auto


lemma sorted_insort_stable:
  "sorted_wrt (\<lambda>a b. \<not> key_lt (key b) (key a)) ys \<Longrightarrow>
   sorted_wrt (\<lambda>a b. \<not> key_lt (key b) (key a)) (insort_stable key x ys)"
proof (induction ys)
  case Nil
  then show ?case by simp
next
  case (Cons y ys)
  show ?case
  proof (cases "key_lt (key y) (key x)")
    case True
    then have "\<not> key_lt (key x) (key y)" using key_lt_trans key_lt_irrefl by blast
    with True Cons show ?thesis by (auto simp: set_insort_stable)
  next
    case False
    then have "\<forall>z\<in>set ys. \<not> key_lt (key z) (key x)"
      using Cons.prems key_le_trans by auto
    with False Cons.prems show ?thesis by auto
  qed
qed


lemma sorted_list_sort: "sorted_wrt (\<lambda>a b. \<not> key_lt (key b) (key a)) (list_sort key xs)"
  by (induction xs) (auto simp: list_sort_def sorted_insort_stable)

lemma filter_insort_stable:
  "filter (\<lambda>y. key y = k) (insort_stable key x ys) = filter (\<lambda>y. key y = k) (x # ys)"
proof (induction ys)
  case (Cons y ys)
  then show ?case using key_lt_irrefl by (auto)
qed simp

lemma stable_list_sort: "filter (\<lambda>y. key y = k) (list_sort key xs) = filter (\<lambda>y. key y = k) xs"
  by (induction xs) (auto simp: list_sort_def filter_insort_stable)





















lemma concat_chunks:
  "concat (text_chunk acc s) = acc @ s"
  "concat (digit_chunk acc' s') = acc' @ s'"
  by (induction acc s and acc' s' rule: text_chunk_digit_chunk.induct) auto

lemma concat_re_split_digits: "concat (re_split_digits s) = s"
  by (simp add: re_split_digits_def concat_chunks)





section \<open>Surfaces and the smoothing pipeline\<close>

text \<open>A \<^verbatim>\<open>vtkPolyData\<close> surface: the points in point-id order and the cells, each a list of
  point ids.\<close>

record 'p polydata =
  points :: "'p list"
  polys :: "nat list list"

text \<open>The VTK filters used by \<^verbatim>\<open>Smooth_Surface\<close>, over any surface type \<open>'m\<close>.\<close>

record 'm mesh_filters =
  vtkPolyDataNormals :: "'m \<Rightarrow> 'm"
  vtkCleanPolyData :: "'m \<Rightarrow> 'm"
  vtkSmoothPolyDataFilter :: "int \<Rightarrow> real \<Rightarrow> 'm \<Rightarrow> 'm"
  vtkDecimatePro :: "real \<Rightarrow> 'm \<Rightarrow> 'm"

text \<open>The slider values read by \<^verbatim>\<open>Smooth_Surface\<close>.\<close>

record smooth_settings =
  smoothing_iterations :: real
  relaxation_factor :: real
  decimate_surface :: real

definition Smooth_Surface :: "'m mesh_filters \<Rightarrow> smooth_settings \<Rightarrow> 'm \<Rightarrow> 'm" where
  "Smooth_Surface F cfg surface =
     (let boneNormals = vtkPolyDataNormals F surface;
          polydata = vtkCleanPolyData F boneNormals;
          polydata = (if smoothing_iterations cfg > 0
                      then vtkSmoothPolyDataFilter F (int_of_float (smoothing_iterations cfg))
                             (relaxation_factor cfg) polydata
                      else polydata);
          polydata = (if decimate_surface cfg > 0 \<and> decimate_surface cfg < 1
                      then vtkDecimatePro F (decimate_surface cfg) polydata
                      else polydata);
          polydata = vtkCleanPolyData F polydata;
          polydata = vtkPolyDataNormals F polydata
      in polydata)"

text \<open>An instance of the filter interface that only records which filter ran, with its
  arguments: the surface is the list of steps applied so far.\<close>

datatype step = ComputeNormals | Weld | Smooth int real | Decimate real

definition recording_filters :: "step list mesh_filters" where
  "recording_filters =
     \<lparr> vtkPolyDataNormals = (\<lambda>log. log @ [ComputeNormals]),
       vtkCleanPolyData = (\<lambda>log. log @ [Weld]),
       vtkSmoothPolyDataFilter = (\<lambda>n r log. log @ [Smooth n r]),
       vtkDecimatePro = (\<lambda>d log. log @ [Decimate d]) \<rparr>"

section \<open>The smoothing pipeline: order of the steps\<close>

text \<open>
  Claim C6.  For every input surface the pipeline is: compute normals, weld, Laplacian
  smoothing only if the iteration count is positive, decimation only if the reduction ratio
  lies strictly between 0 and 1, weld again, recompute normals.  The first conjunct gives the
  result as this composition for arbitrary filters; the second gives the recorded sequence of
  steps, which has no smoothing step when the iteration count is 0 (or less) and no
  decimation step when the ratio is outside (0,1).
\<close>

theorem Smooth_Surface_order:
  "Smooth_Surface F cfg s =
     vtkPolyDataNormals F (vtkCleanPolyData F
       ((if 0 < decimate_surface cfg \<and> decimate_surface cfg < 1
         then vtkDecimatePro F (decimate_surface cfg) else id)
        ((if 0 < smoothing_iterations cfg
          then vtkSmoothPolyDataFilter F (int_of_float (smoothing_iterations cfg))
                 (relaxation_factor cfg) else id)
         (vtkCleanPolyData F (vtkPolyDataNormals F s)))))
   \<and> Smooth_Surface recording_filters cfg [] =
       [ComputeNormals, Weld]
       @ (if 0 < smoothing_iterations cfg
          then [Smooth (int_of_float (smoothing_iterations cfg)) (relaxation_factor cfg)] else [])
       @ (if 0 < decimate_surface cfg \<and> decimate_surface cfg < 1
          then [Decimate (decimate_surface cfg)] else [])
       @ [Weld, ComputeNormals]"
  by (simp add: Smooth_Surface_def recording_filters_def Let_def)

section \<open>Training data: extraction and registration of the bone surfaces\<close>

text \<open>A \<^verbatim>\<open>for\<close> loop that threads a state and stops at the first exception.\<close>

fun foldE :: "('a \<Rightarrow> 's \<Rightarrow> error + 's) \<Rightarrow> 'a list \<Rightarrow> 's \<Rightarrow> error + 's" where
  "foldE f [] s = Inr s"
| "foldE f (x # xs) s = bindE (f x s) (foldE f xs)"

fun mapE :: "('a \<Rightarrow> error + 'b) \<Rightarrow> 'a list \<Rightarrow> error + 'b list" where
  "mapE f [] = Inr []"
| "mapE f (x # xs) = bindE (f x) (\<lambda>y. bindE (mapE f xs) (\<lambda>ys. Inr (y # ys)))"

text \<open>\<^verbatim>\<open>polydata_list[label][i]\<close>, \<^verbatim>\<open>polydata_list[label][i] = v\<close> and
  \<^verbatim>\<open>polydata_list[label].append(v)\<close> on a list of lists.\<close>

definition get2 :: "'a list list \<Rightarrow> int \<Rightarrow> int \<Rightarrow> error + 'a" where
  "get2 pl label i = bindE (getitem pl label) (\<lambda>row. getitem row i)"

definition set2 :: "'a list list \<Rightarrow> int \<Rightarrow> int \<Rightarrow> 'a \<Rightarrow> error + 'a list list" where
  "set2 pl label i v =
     bindE (py_index pl label) (\<lambda>k.
     bindE (setitem (pl ! k) i v) (\<lambda>row. Inr (pl[k := row])))"

definition append2 :: "'a list list \<Rightarrow> int \<Rightarrow> 'a \<Rightarrow> error + 'a list list" where
  "append2 pl label v = bindE (py_index pl label) (\<lambda>k. Inr (pl[k := pl ! k @ [v]]))"

datatype icp_mode = Rigid | Similarity | Affine

record icp_settings =
  icp_mode :: icp_mode
  IterationNumber :: real
  LandmarkNumber :: real
  RMS_Number :: real

text \<open>The VTK classes the training-data widget drives.  The iterative closest point
  transform maps a source and a target surface to a point transform; thresholding one label
  followed by discrete marching cubes maps an image and a label to a surface.\<close>

record ('img, 'p) training_vtk =
  vtkNIFTIImageReader :: "string \<Rightarrow> 'img"
  vtkImageFlip :: "nat \<Rightarrow> 'img \<Rightarrow> 'img"
  vtkDiscreteMarchingCubes :: "'img \<Rightarrow> int \<Rightarrow> 'p polydata"
  surface_filters :: "'p polydata mesh_filters"
  vtkIterativeClosestPointTransform ::
    "icp_settings \<Rightarrow> 'p polydata \<Rightarrow> 'p polydata \<Rightarrow> 'p \<Rightarrow> 'p"

text \<open>\<^verbatim>\<open>vtkTransformPolyDataFilter\<close> moves every point by the transform and keeps the cells;
  \<^verbatim>\<open>vtkAppendPolyData\<close> concatenates the points and shifts the point ids of the cells.\<close>

definition vtkTransformPolyDataFilter :: "('p \<Rightarrow> 'p) \<Rightarrow> 'p polydata \<Rightarrow> 'p polydata" where
  "vtkTransformPolyDataFilter T m = m\<lparr>points := map T (points m)\<rparr>"

fun append_cells :: "nat \<Rightarrow> 'p polydata list \<Rightarrow> nat list list" where
  "append_cells off [] = []"
| "append_cells off (m # ms) =
     map (map (\<lambda>pid. off + pid)) (polys m) @ append_cells (off + length (points m)) ms"

definition vtkAppendPolyData :: "'p polydata list \<Rightarrow> 'p polydata" where
  "vtkAppendPolyData ms = \<lparr>points = concat (map points ms), polys = append_cells 0 ms\<rparr>"

text \<open>The state of the widget that \<^verbatim>\<open>onCompute\<close> reads: \<open>lineedit_labels\<close> is the text of the
  label field as parsed by \<^verbatim>\<open>np.fromstring(text, dtype=int, sep=',')\<close>; slider values are
  floats.\<close>

record training_widget =
  lineedit_labels :: "int list"
  Ref_Bone_Slider_minimum :: real
  Ref_Bone_Slider_maximum :: real
  ref_label :: int
  num_files :: real
  flip_image_vertically :: bool
  flip_image_horizontally :: bool
  Save_Extracted_Bones_Separately :: bool
  Skip_Registration :: bool
  Remove_Ref_Bone :: bool
  Save_Registered_Bones_Separately :: bool
  smoothing :: smooth_settings
  icp :: icp_settings
  segmentation_directory :: string

text \<open>\<^verbatim>\<open>self.bone_labels\<close> is a numpy array when it comes from the text field, and a Python
  \<^verbatim>\<open>range\<close> when the default labels are used.\<close>

datatype labels = NdArray "int list" | PyRange int int

definition labels_list :: "labels \<Rightarrow> int list" where
  "labels_list ls = (case ls of NdArray xs \<Rightarrow> xs | PyRange lo hi \<Rightarrow> [lo..hi - 1])"

definition bone_labels :: "training_widget \<Rightarrow> error + labels" where
  "bone_labels w =
     bindE (getitem (lineedit_labels w) 0) (\<lambda>first.
       if first = - 1
       then Inr (PyRange (int_of_float (Ref_Bone_Slider_minimum w))
                         (int_of_float (Ref_Bone_Slider_maximum w) + 1))
       else Inr (NdArray (lineedit_labels w)))"

definition np_max :: "int list \<Rightarrow> error + int" where
  "np_max xs = (case xs of [] \<Rightarrow> Inl ValueError | x # rest \<Rightarrow> Inr (fold max rest x))"

text \<open>\<^verbatim>\<open>self.bone_labels == self.ref_label\<close> is elementwise on an array and plain \<^verbatim>\<open>False\<close> on
  a \<^verbatim>\<open>range\<close>; \<^verbatim>\<open>np.argwhere\<close> returns the indices where it holds (none for \<^verbatim>\<open>False\<close>), and
  \<^verbatim>\<open>np.delete\<close> returns the array without the entries at these indices.\<close>

definition argwhere_eq :: "labels \<Rightarrow> int \<Rightarrow> nat list" where
  "argwhere_eq ls v =
     (case ls of
        NdArray xs \<Rightarrow> filter (\<lambda>k. xs ! k = v) [0..<length xs]
      | PyRange lo hi \<Rightarrow> [])"

definition np_delete :: "int list \<Rightarrow> nat list \<Rightarrow> int list" where
  "np_delete xs idx = map (\<lambda>k. xs ! k) (filter (\<lambda>k. k \<notin> set idx) [0..<length xs])"

definition exported_labels :: "training_widget \<Rightarrow> labels \<Rightarrow> labels" where
  "exported_labels w ls =
     (if Remove_Ref_Bone w
      then NdArray (np_delete (labels_list ls) (argwhere_eq ls (ref_label w)))
      else ls)"

definition Extract_Surface ::
  "('img, 'p) training_vtk \<Rightarrow> training_widget \<Rightarrow> 'img \<Rightarrow> int \<Rightarrow> 'p polydata" where
  "Extract_Surface lib w img label =
     Smooth_Surface (surface_filters lib) (smoothing w) (vtkDiscreteMarchingCubes lib img label)"

definition IterativeClosestPoint ::
  "('img, 'p) training_vtk \<Rightarrow> training_widget \<Rightarrow> 'p polydata \<Rightarrow> 'p polydata
     \<Rightarrow> 'p polydata option \<Rightarrow> 'p polydata" where
  "IterativeClosestPoint lib w source target reference =
     (let T = vtkIterativeClosestPointTransform lib (icp w) source target;
          transformedSource = vtkTransformPolyDataFilter T source
      in case reference of
           Some r \<Rightarrow> vtkTransformPolyDataFilter T r
         | None \<Rightarrow> transformedSource)"

definition Combine_Surfaces :: "'p polydata list \<Rightarrow> 'p polydata" where
  "Combine_Surfaces ms = vtkAppendPolyData ms"

text \<open>The files \<^verbatim>\<open>onCompute\<close> looks at: the indices \<^verbatim>\<open>self.file_list\<close> into the sorted
  listing, limited by the "number of images" slider (\<open>-1\<close> means all).\<close>

definition file_list :: "training_widget \<Rightarrow> string list \<Rightarrow> nat list" where
  "file_list w fs =
     (let n = (if num_files w > real (length fs) then real (length fs) else num_files w)
      in if n = - 1 then [0..<length fs] else [0..<nat (int_of_float n)])"

definition flip_image :: "('img, 'p) training_vtk \<Rightarrow> training_widget \<Rightarrow> 'img \<Rightarrow> 'img" where
  "flip_image lib w img =
     (let img = (if flip_image_vertically w then vtkImageFlip lib 1 img else img);
          img = (if flip_image_horizontally w then vtkImageFlip lib 0 img else img)
      in img)"

fun load_images ::
  "('img, 'p) training_vtk \<Rightarrow> training_widget \<Rightarrow> string list \<Rightarrow> nat list \<Rightarrow> 'img list" where
  "load_images lib w fs [] = []"
| "load_images lib w fs (curr_file # rest) =
     (if last3 (fs ! curr_file) = ''nii''
      then [flip_image lib w
              (vtkNIFTIImageReader lib (path_join (segmentation_directory w) (fs ! curr_file)))]
      else [])
     @ load_images lib w fs rest"

text \<open>Surface extraction: for every label and every loaded image, the extracted surface is
  appended to the label's row of \<^verbatim>\<open>polydata_list\<close>.\<close>

definition extract_surfaces ::
  "('img, 'p) training_vtk \<Rightarrow> training_widget \<Rightarrow> int list \<Rightarrow> 'img list
     \<Rightarrow> 'p polydata list list \<Rightarrow> error + 'p polydata list list" where
  "extract_surfaces lib w ls images pl =
     foldE (\<lambda>label. foldE (\<lambda>img pl. append2 pl label (Extract_Surface lib w img label)) images)
       ls pl"

text \<open>The names of the written files: \<^verbatim>\<open>Bone_<label>_position_<i>.ply\<close>,
  \<^verbatim>\<open><name>_combined.ply\<close> and \<^verbatim>\<open>Position_<i>_bone_<label>.ply\<close>.\<close>

datatype file_name = Bone_position int nat | Combined string | Position_bone nat int

definition save_extracted_bones ::
  "int list \<Rightarrow> nat \<Rightarrow> 'p polydata list list \<Rightarrow> error + (file_name \<times> 'p polydata) list" where
  "save_extracted_bones ls n pl =
     mapE (\<lambda>(label, i). bindE (get2 pl label (int i)) (\<lambda>m. Inr (Bone_position label i, m)))
       (List.product ls [0..<n])"

text \<open>The reference shape of a label is the surface of the first volunteer.\<close>

definition reference_shapes ::
  "int list \<Rightarrow> int \<Rightarrow> 'p polydata list list \<Rightarrow> error + 'p polydata list list" where
  "reference_shapes ls max_bone_label pl =
     foldE (\<lambda>label refs. bindE (get2 pl label 0) (\<lambda>m. append2 refs label m))
       ls (replicate (nat (max_bone_label + 1)) [])"

text \<open>First registration loop ("Register the reference shape to each bone position").\<close>

definition register_reference_shapes ::
  "('img, 'p) training_vtk \<Rightarrow> training_widget \<Rightarrow> int list \<Rightarrow> nat \<Rightarrow> 'p polydata list list
     \<Rightarrow> 'p polydata list list \<Rightarrow> error + 'p polydata list list" where
  "register_reference_shapes lib w ls n refs pl =
     foldE (\<lambda>label. foldE (\<lambda>i pl.
         bindE (get2 pl label (int i)) (\<lambda>target.
         bindE (get2 refs label 0) (\<lambda>source.
         set2 pl label (int i) (IterativeClosestPoint lib w source target None))))
       [0..<n]) ls pl"

text \<open>Second loop ("Register the reference bone for all the volunteers together"): every
  label but the reference label.\<close>

definition register_to_reference_bone ::
  "('img, 'p) training_vtk \<Rightarrow> training_widget \<Rightarrow> int list \<Rightarrow> nat
     \<Rightarrow> 'p polydata list list \<Rightarrow> error + 'p polydata list list" where
  "register_to_reference_bone lib w ls n pl =
     foldE (\<lambda>label. foldE (\<lambda>i pl.
         if label \<noteq> ref_label w
         then bindE (get2 pl (ref_label w) 0) (\<lambda>target.
              bindE (get2 pl (ref_label w) (int i)) (\<lambda>source.
              bindE (get2 pl label (int i)) (\<lambda>reference.
              set2 pl label (int i)
                (IterativeClosestPoint lib w source target (Some reference)))))
         else Inr pl)
       [0..<n]) ls pl"

text \<open>Third loop ("Now register the reference label bones together").\<close>

definition register_reference_bone ::
  "('img, 'p) training_vtk \<Rightarrow> training_widget \<Rightarrow> nat
     \<Rightarrow> 'p polydata list list \<Rightarrow> error + 'p polydata list list" where
  "register_reference_bone lib w n pl =
     foldE (\<lambda>i pl.
         bindE (get2 pl (ref_label w) 0) (\<lambda>target.
         bindE (get2 pl (ref_label w) (int i)) (\<lambda>source.
         bindE (get2 pl (ref_label w) (int i)) (\<lambda>reference.
         set2 pl (ref_label w) (int i)
           (IterativeClosestPoint lib w source target (Some reference))))))
       [0..<n] pl"

definition registration ::
  "('img, 'p) training_vtk \<Rightarrow> training_widget \<Rightarrow> int list \<Rightarrow> int \<Rightarrow> nat
     \<Rightarrow> 'p polydata list list \<Rightarrow> error + 'p polydata list list" where
  "registration lib w ls max_bone_label n pl =
     bindE (reference_shapes ls max_bone_label pl) (\<lambda>refs.
     bindE (register_reference_shapes lib w ls n refs pl) (\<lambda>pl.
     bindE (register_to_reference_bone lib w ls n pl) (\<lambda>pl.
     register_reference_bone lib w n pl)))"

definition save_output ::
  "training_widget \<Rightarrow> string list \<Rightarrow> int list \<Rightarrow> nat \<Rightarrow> 'p polydata list list
     \<Rightarrow> error + (file_name \<times> 'p polydata) list" where
  "save_output w fs ls n pl =
     bindE (mapE (\<lambda>i.
         bindE (mapE (\<lambda>label. get2 pl label (int i)) ls) (\<lambda>temp_combine_list.
         let combined_polydata = Combine_Surfaces temp_combine_list in
         bindE (getitem fs (int i)) (\<lambda>name.
         bindE (if Save_Registered_Bones_Separately w
                then mapE (\<lambda>label. bindE (get2 pl label (int i))
                                      (\<lambda>m. Inr (Position_bone i label, m))) ls
                else Inr []) (\<lambda>separate.
         Inr ((Combined (take (length name - 4) name), combined_polydata) # separate)))))
       [0..<n])
     (\<lambda>written. Inr (concat written))"

definition Create_Training_Data_onCompute ::
  "('img, 'p) training_vtk \<Rightarrow> training_widget \<Rightarrow> string list
     \<Rightarrow> error + (file_name \<times> 'p polydata) list" where
  "Create_Training_Data_onCompute lib w listing =
     bindE (bone_labels w) (\<lambda>bl.
     bindE (np_max (labels_list bl)) (\<lambda>max_bone_label.
       let fs = list_sort alphanum_key listing;
           images_list = load_images lib w fs (file_list w fs);
           n = length images_list
       in bindE (extract_surfaces lib w (labels_list bl) images_list
                   (replicate (nat (max_bone_label + 1)) [])) (\<lambda>pl.
          bindE (if Save_Extracted_Bones_Separately w
                 then save_extracted_bones (labels_list bl) n pl else Inr []) (\<lambda>extracted.
          if Skip_Registration w then Inr extracted
          else bindE (registration lib w (labels_list bl) max_bone_label n pl) (\<lambda>pl.
               bindE (save_output w fs (labels_list (exported_labels w bl)) n pl) (\<lambda>registered.
               Inr (extracted @ registered)))))))"

lemma bindE_simps [simp]:
  "bindE (Inr x) f = f x"
  "bindE (Inl e) f = Inl e"
  by (simp_all add: bindE_def)

lemma foldE_append: "foldE f (xs @ ys) s = bindE (foldE f xs s) (foldE f ys)"
  by (induction xs arbitrary: s) (auto simp: bindE_def split: sum.splits)

lemma py_index_label:
  "0 \<le> l \<Longrightarrow> nat l < length xs \<Longrightarrow> py_index xs l = Inr (nat l)"
  by (auto simp: py_index_def)

lemma py_index_nat: "i < length xs \<Longrightarrow> py_index xs (int i) = Inr i"
  by (simp add: py_index_def)

lemma get2_valid:
  "0 \<le> l \<Longrightarrow> nat l < length pl \<Longrightarrow> i < length (pl ! nat l)
     \<Longrightarrow> get2 pl l (int i) = Inr (pl ! nat l ! i)"
  by (simp add: get2_def getitem_def py_index_label py_index_nat)

lemma set2_valid:
  "0 \<le> l \<Longrightarrow> nat l < length pl \<Longrightarrow> i < length (pl ! nat l)
     \<Longrightarrow> set2 pl l (int i) v = Inr (pl[nat l := (pl ! nat l)[i := v]])"
  by (simp add: set2_def setitem_def py_index_label py_index_nat)

lemma append2_valid:
  "0 \<le> l \<Longrightarrow> nat l < length pl \<Longrightarrow> append2 pl l v = Inr (pl[nat l := pl ! nat l @ [v]])"
  by (simp add: append2_def py_index_label)

text \<open>A loop over \<open>[0..<n]\<close> that replaces entry \<open>i\<close> of row \<open>k\<close> by \<open>h i\<close> in its \<open>i\<close>-th
  round.\<close>

lemma row_step:
  assumes "m < length row"
  shows "(map h [0..<m] @ drop m row)[m := h m] = map h [0..<Suc m] @ drop (Suc m) row"
proof -
  have "drop m row = row ! m # drop (Suc m) row"
    using assms by (simp add: Cons_nth_drop_Suc)
  then show ?thesis by (simp add: list_update_append)
qed

lemma row_loop_prefix:
  assumes k: "k < length pl" and m: "m \<le> length (pl ! k)"
    and step: "\<And>i. i < m \<Longrightarrow>
                 f i (pl[k := map h [0..<i] @ drop i (pl ! k)])
                   = Inr (pl[k := (map h [0..<i] @ drop i (pl ! k))[i := h i]])"
  shows "foldE f [0..<m] pl = Inr (pl[k := map h [0..<m] @ drop m (pl ! k)])"
  using m step
proof (induction m)
  case 0
  then show ?case by simp
next
  case (Suc m)
  have "foldE f [0..<m] pl = Inr (pl[k := map h [0..<m] @ drop m (pl ! k)])"
    using Suc by simp
  moreover have "f m (pl[k := map h [0..<m] @ drop m (pl ! k)])
                   = Inr (pl[k := (map h [0..<m] @ drop m (pl ! k))[m := h m]])"
    using Suc.prems(2) by simp
  moreover have "(map h [0..<m] @ drop m (pl ! k))[m := h m]
                   = map h [0..<Suc m] @ drop (Suc m) (pl ! k)"
    using Suc.prems(1) by (intro row_step) simp
  ultimately show ?case
    by (simp only: upt_Suc_append [OF le0] foldE_append bindE_simps foldE.simps)
qed

lemma row_loop:
  assumes k: "k < length pl" and n: "length (pl ! k) = n"
    and step: "\<And>i. i < n \<Longrightarrow>
                 f i (pl[k := map h [0..<i] @ drop i (pl ! k)])
                   = Inr (pl[k := (map h [0..<i] @ drop i (pl ! k))[i := h i]])"
  shows "foldE f [0..<n] pl = Inr (pl[k := map h [0..<n]])"
  using row_loop_prefix [OF k, of n f h] n step by simp

lemma partial_row_nth:
  "i < length row \<Longrightarrow> (map h [0..<i] @ drop i row) ! i = row ! i"
  by (simp add: nth_append)

lemma partial_row_length: "i \<le> length row \<Longrightarrow> length (map h [0..<i] @ drop i row) = length row"
  by simp

text \<open>A loop over distinct labels that replaces the row of label \<open>l\<close> by \<open>g l\<close>, where
  \<open>Q\<close> is a further invariant of the loop.\<close>

lemma label_loop_general:
  assumes "distinct ls" and "\<forall>l\<in>set ls. 0 \<le> l \<and> nat l < length pl"
    and step: "\<And>l pl'. l \<in> set ls \<Longrightarrow> length pl' = length pl \<Longrightarrow> pl' ! nat l = pl ! nat l
                 \<Longrightarrow> Q pl' \<Longrightarrow> f l pl' = Inr (pl'[nat l := g l]) \<and> Q (pl'[nat l := g l])"
    and "length pl' = length pl" and "\<forall>l\<in>set ls. pl' ! nat l = pl ! nat l" and "Q pl'"
  shows "\<exists>pl2. foldE f ls pl' = Inr pl2 \<and> length pl2 = length pl \<and>
           (\<forall>l\<in>set ls. pl2 ! nat l = g l) \<and>
           (\<forall>k<length pl. int k \<notin> set ls \<longrightarrow> pl2 ! k = pl' ! k) \<and> Q pl2"
  using assms
proof (induction ls arbitrary: pl')
  case Nil
  then show ?case by simp
next
  case (Cons x xs)
  let ?pl'' = "pl'[nat x := g x]"
  have x: "0 \<le> x" "nat x < length pl" using Cons.prems(2) by auto
  have fx: "f x pl' = Inr ?pl''" and Q'': "Q ?pl''"
    using Cons.prems(3) [of x pl'] Cons.prems(4,5,6) by auto
  have untouched: "\<forall>l\<in>set xs. ?pl'' ! nat l = pl ! nat l"
  proof
    fix l assume l: "l \<in> set xs"
    then have "l \<noteq> x" "0 \<le> l" using Cons.prems(1,2) by auto
    then have "nat l \<noteq> nat x" using x(1) by simp
    then show "?pl'' ! nat l = pl ! nat l" using Cons.prems(5) l by simp
  qed
  have "\<exists>pl2. foldE f xs ?pl'' = Inr pl2 \<and> length pl2 = length pl \<and>
           (\<forall>l\<in>set xs. pl2 ! nat l = g l) \<and>
           (\<forall>k<length pl. int k \<notin> set xs \<longrightarrow> pl2 ! k = ?pl'' ! k) \<and> Q pl2"
  proof (rule Cons.IH)
    show "distinct xs" using Cons.prems(1) by simp
    show "\<forall>l\<in>set xs. 0 \<le> l \<and> nat l < length pl" using Cons.prems(2) by simp
    show "f l p = Inr (p[nat l := g l]) \<and> Q (p[nat l := g l])"
      if "l \<in> set xs" "length p = length pl" "p ! nat l = pl ! nat l" "Q p" for l p
      using Cons.prems(3) [of l p] that by simp
    show "length ?pl'' = length pl" using Cons.prems(4) by simp
    show "\<forall>l\<in>set xs. ?pl'' ! nat l = pl ! nat l" by (rule untouched)
    show "Q ?pl''" by (rule Q'')
  qed
  then obtain pl2 where r: "foldE f xs ?pl'' = Inr pl2" "length pl2 = length pl"
    "\<forall>l\<in>set xs. pl2 ! nat l = g l"
    "\<forall>k<length pl. int k \<notin> set xs \<longrightarrow> pl2 ! k = ?pl'' ! k" "Q pl2"
    by blast
  have "x \<notin> set xs" using Cons.prems(1) by simp
  then have "pl2 ! nat x = ?pl'' ! nat x" using r(4) x by simp
  then have gx: "pl2 ! nat x = g x" using x Cons.prems(4) by simp
  have rest: "\<forall>k<length pl. int k \<notin> set (x # xs) \<longrightarrow> pl2 ! k = pl' ! k"
  proof (intro allI impI)
    fix k assume k: "k < length pl" "int k \<notin> set (x # xs)"
    then have "k \<noteq> nat x" using x(1) by auto
    then show "pl2 ! k = pl' ! k" using r(4) k by simp
  qed
  show ?case using fx r(1,2,3,5) gx rest by simp
qed

lemma label_loop:
  assumes "distinct ls" and "\<forall>l\<in>set ls. 0 \<le> l \<and> nat l < length pl"
    and step: "\<And>l pl'. l \<in> set ls \<Longrightarrow> length pl' = length pl \<Longrightarrow> pl' ! nat l = pl ! nat l
                 \<Longrightarrow> Q pl' \<Longrightarrow> f l pl' = Inr (pl'[nat l := g l]) \<and> Q (pl'[nat l := g l])"
    and "Q pl"
  shows "\<exists>pl2. foldE f ls pl = Inr pl2 \<and> length pl2 = length pl \<and>
           (\<forall>l\<in>set ls. pl2 ! nat l = g l) \<and>
           (\<forall>k<length pl. int k \<notin> set ls \<longrightarrow> pl2 ! k = pl ! k) \<and> Q pl2"
  by (rule label_loop_general [OF assms(1,2,3) _ _ assms(4)]) simp_all

lemma reference_shapes_result:
  assumes "distinct ls"
    and "\<forall>l\<in>set ls. 0 \<le> l \<and> l \<le> max_bone_label \<and> nat l < length pl \<and> pl ! nat l \<noteq> []"
  shows "\<exists>refs. reference_shapes ls max_bone_label pl = Inr refs \<and>
           length refs = nat (max_bone_label + 1) \<and>
           (\<forall>l\<in>set ls. refs ! nat l = [pl ! nat l ! 0])"
proof -
  let ?init = "replicate (nat (max_bone_label + 1)) ([] :: 'a polydata list)"
  let ?f = "\<lambda>label refs. bindE (get2 pl label 0) (\<lambda>m. append2 refs label m)"
  have valid: "\<forall>l\<in>set ls. 0 \<le> l \<and> nat l < length ?init" using assms(2) by auto
  have "\<exists>refs. foldE ?f ls ?init = Inr refs \<and> length refs = length ?init \<and>
           (\<forall>l\<in>set ls. refs ! nat l = [pl ! nat l ! 0]) \<and>
           (\<forall>k<length ?init. int k \<notin> set ls \<longrightarrow> refs ! k = ?init ! k) \<and> True"
  proof (rule label_loop [OF assms(1) valid, where Q = "\<lambda>_. True"])
    fix l refs
    assume l: "l \<in> set ls" and len: "length refs = length ?init"
      and row: "refs ! nat l = ?init ! nat l"
    have l0: "0 \<le> l" "nat l < length pl" "0 < length (pl ! nat l)" "nat l < length refs"
      using assms(2) l len by auto
    have "get2 pl l (int 0) = Inr (pl ! nat l ! 0)"
      using l0 by (intro get2_valid) auto
    moreover have "refs ! nat l = []" using row l0 len by simp
    ultimately show "?f l refs = Inr (refs[nat l := [pl ! nat l ! 0]]) \<and> True"
      using l0 by (simp add: append2_valid)
  qed simp
  then show ?thesis by (auto simp: reference_shapes_def)
qed

lemma register_reference_shapes_row:
  assumes "0 \<le> l" and "nat l < length pl" and "length (pl ! nat l) = n"
    and "nat l < length refs" and "refs ! nat l \<noteq> []"
  shows "foldE (\<lambda>i pl.
           bindE (get2 pl l (int i)) (\<lambda>target.
           bindE (get2 refs l 0) (\<lambda>source.
           set2 pl l (int i) (IterativeClosestPoint lib w source target None))))
         [0..<n] pl
       = Inr (pl[nat l := map (\<lambda>i. IterativeClosestPoint lib w (refs ! nat l ! 0)
                                     (pl ! nat l ! i) None) [0..<n]])"
proof (rule row_loop [OF assms(2,3)])
  fix i assume i: "i < n"
  let ?h = "\<lambda>i. IterativeClosestPoint lib w (refs ! nat l ! 0) (pl ! nat l ! i) None"
  let ?row = "map ?h [0..<i] @ drop i (pl ! nat l)"
  let ?p = "pl[nat l := ?row]"
  have len: "length ?row = n" using i assms(3) by simp
  have p: "nat l < length ?p" "?p ! nat l = ?row" using assms(2) by simp_all
  have "get2 ?p l (int i) = Inr (?p ! nat l ! i)"
    using assms(1) p len i by (intro get2_valid) auto
  then have t: "get2 ?p l (int i) = Inr (pl ! nat l ! i)"
    using p(2) partial_row_nth [of i "pl ! nat l" ?h] i assms(3) by simp
  have "get2 refs l (int 0) = Inr (refs ! nat l ! 0)"
    using assms(1,4,5) by (intro get2_valid) auto
  then have s: "get2 refs l 0 = Inr (refs ! nat l ! 0)" by simp
  have "set2 ?p l (int i) (?h i) = Inr (?p[nat l := (?p ! nat l)[i := ?h i]])"
    using assms(1) p len i by (intro set2_valid) auto
  then have u: "set2 ?p l (int i) (?h i) = Inr (pl[nat l := ?row[i := ?h i]])"
    using p(2) by simp
  show "bindE (get2 ?p l (int i)) (\<lambda>target.
           bindE (get2 refs l 0) (\<lambda>source.
           set2 ?p l (int i) (IterativeClosestPoint lib w source target None)))
        = Inr (pl[nat l := ?row[i := ?h i]])"
    by (simp only: t s u bindE_simps)
qed

lemma register_reference_shapes_result:
  assumes "distinct ls"
    and "\<forall>l\<in>set ls. 0 \<le> l \<and> nat l < length pl \<and> length (pl ! nat l) = n"
    and "\<forall>l\<in>set ls. nat l < length refs \<and> refs ! nat l \<noteq> []"
  shows "\<exists>pl1. register_reference_shapes lib w ls n refs pl = Inr pl1 \<and>
           length pl1 = length pl \<and>
           (\<forall>l\<in>set ls. pl1 ! nat l =
              map (\<lambda>i. IterativeClosestPoint lib w (refs ! nat l ! 0) (pl ! nat l ! i) None)
                [0..<n]) \<and>
           (\<forall>k<length pl. int k \<notin> set ls \<longrightarrow> pl1 ! k = pl ! k)"
proof -
  let ?g = "\<lambda>l. map (\<lambda>i. IterativeClosestPoint lib w (refs ! nat l ! 0) (pl ! nat l ! i) None)
                [0..<n]"
  let ?f = "\<lambda>label. foldE (\<lambda>i pl.
         bindE (get2 pl label (int i)) (\<lambda>target.
         bindE (get2 refs label 0) (\<lambda>source.
         set2 pl label (int i) (IterativeClosestPoint lib w source target None))))
       [0..<n]"
  have valid: "\<forall>l\<in>set ls. 0 \<le> l \<and> nat l < length pl" using assms(2) by auto
  have "\<exists>pl1. foldE ?f ls pl = Inr pl1 \<and> length pl1 = length pl \<and>
           (\<forall>l\<in>set ls. pl1 ! nat l = ?g l) \<and>
           (\<forall>k<length pl. int k \<notin> set ls \<longrightarrow> pl1 ! k = pl ! k) \<and> True"
  proof (rule label_loop [OF assms(1) valid, where Q = "\<lambda>_. True"])
    fix l p
    assume l: "l \<in> set ls" and len: "length p = length pl" and row: "p ! nat l = pl ! nat l"
    have "?f l p = Inr (p[nat l := map (\<lambda>i. IterativeClosestPoint lib w (refs ! nat l ! 0)
                                     (p ! nat l ! i) None) [0..<n]])"
      using assms(2,3) l len row by (intro register_reference_shapes_row) auto
    then show "?f l p = Inr (p[nat l := ?g l]) \<and> True" using row by simp
  qed simp
  then show ?thesis by (auto simp: register_reference_shapes_def)
qed

lemma foldE_skip: "foldE (\<lambda>i pl. Inr pl) xs pl = Inr pl"
  by (induction xs) simp_all

lemma register_to_reference_bone_row:
  assumes "0 \<le> l" and "nat l < length pl" and "length (pl ! nat l) = n"
    and "0 \<le> r" and "nat r < length pl" and "length (pl ! nat r) = n" and "l \<noteq> r"
  shows "foldE (\<lambda>i pl.
           bindE (get2 pl r 0) (\<lambda>target.
           bindE (get2 pl r (int i)) (\<lambda>source.
           bindE (get2 pl l (int i)) (\<lambda>reference.
           set2 pl l (int i) (IterativeClosestPoint lib w source target (Some reference))))))
         [0..<n] pl
       = Inr (pl[nat l := map (\<lambda>i. IterativeClosestPoint lib w (pl ! nat r ! i) (pl ! nat r ! 0)
                                     (Some (pl ! nat l ! i))) [0..<n]])"
proof (rule row_loop [OF assms(2,3)])
  fix i assume i: "i < n"
  let ?h = "\<lambda>i. IterativeClosestPoint lib w (pl ! nat r ! i) (pl ! nat r ! 0)
                  (Some (pl ! nat l ! i))"
  let ?row = "map ?h [0..<i] @ drop i (pl ! nat l)"
  let ?p = "pl[nat l := ?row]"
  have ne: "nat l \<noteq> nat r" using assms(1,4,7) by simp
  have len: "length ?row = n" using i assms(3) by simp
  have p: "nat l < length ?p" "?p ! nat l = ?row" "nat r < length ?p" "?p ! nat r = pl ! nat r"
    using assms(2,5) ne by simp_all
  have "get2 ?p r (int 0) = Inr (?p ! nat r ! 0)"
    using assms(4,6) p i by (intro get2_valid) auto
  then have t: "get2 ?p r 0 = Inr (pl ! nat r ! 0)" using p(4) by simp
  have "get2 ?p r (int i) = Inr (?p ! nat r ! i)"
    using assms(4,6) p i by (intro get2_valid) auto
  then have s: "get2 ?p r (int i) = Inr (pl ! nat r ! i)" using p(4) by simp
  have "get2 ?p l (int i) = Inr (?p ! nat l ! i)"
    using assms(1) p len i by (intro get2_valid) auto
  then have rf: "get2 ?p l (int i) = Inr (pl ! nat l ! i)"
    using p(2) partial_row_nth [of i "pl ! nat l" ?h] i assms(3) by simp
  have "set2 ?p l (int i) (?h i) = Inr (?p[nat l := (?p ! nat l)[i := ?h i]])"
    using assms(1) p len i by (intro set2_valid) auto
  then have u: "set2 ?p l (int i) (?h i) = Inr (pl[nat l := ?row[i := ?h i]])"
    using p(2) by simp
  show "bindE (get2 ?p r 0) (\<lambda>target.
           bindE (get2 ?p r (int i)) (\<lambda>source.
           bindE (get2 ?p l (int i)) (\<lambda>reference.
           set2 ?p l (int i) (IterativeClosestPoint lib w source target (Some reference)))))
        = Inr (pl[nat l := ?row[i := ?h i]])"
    by (simp only: t s rf u bindE_simps)
qed

lemma register_to_reference_bone_result:
  assumes "distinct ls"
    and "\<forall>l\<in>set ls. 0 \<le> l \<and> nat l < length pl \<and> length (pl ! nat l) = n"
    and "0 \<le> ref_label w" and "nat (ref_label w) < length pl"
    and "length (pl ! nat (ref_label w)) = n"
  shows "\<exists>pl2. register_to_reference_bone lib w ls n pl = Inr pl2 \<and>
           length pl2 = length pl \<and>
           (\<forall>l\<in>set ls. l \<noteq> ref_label w \<longrightarrow> pl2 ! nat l =
              map (\<lambda>i. IterativeClosestPoint lib w (pl ! nat (ref_label w) ! i)
                         (pl ! nat (ref_label w) ! 0) (Some (pl ! nat l ! i))) [0..<n]) \<and>
           (\<forall>k<length pl. int k \<notin> set ls \<longrightarrow> pl2 ! k = pl ! k) \<and>
           pl2 ! nat (ref_label w) = pl ! nat (ref_label w)"
proof -
  let ?r = "ref_label w"
  let ?g = "\<lambda>l. if l = ?r then pl ! nat ?r
                else map (\<lambda>i. IterativeClosestPoint lib w (pl ! nat ?r ! i)
                         (pl ! nat ?r ! 0) (Some (pl ! nat l ! i))) [0..<n]"
  let ?f = "\<lambda>label. foldE (\<lambda>i pl.
         if label \<noteq> ref_label w
         then bindE (get2 pl (ref_label w) 0) (\<lambda>target.
              bindE (get2 pl (ref_label w) (int i)) (\<lambda>source.
              bindE (get2 pl label (int i)) (\<lambda>reference.
              set2 pl label (int i)
                (IterativeClosestPoint lib w source target (Some reference)))))
         else Inr pl)
       [0..<n]"
  let ?Q = "\<lambda>p. p ! nat ?r = pl ! nat ?r"
  have valid: "\<forall>l\<in>set ls. 0 \<le> l \<and> nat l < length pl" using assms(2) by auto
  have "\<exists>pl2. foldE ?f ls pl = Inr pl2 \<and> length pl2 = length pl \<and>
           (\<forall>l\<in>set ls. pl2 ! nat l = ?g l) \<and>
           (\<forall>k<length pl. int k \<notin> set ls \<longrightarrow> pl2 ! k = pl ! k) \<and> ?Q pl2"
  proof (rule label_loop [OF assms(1) valid, where Q = ?Q])
    fix l p
    assume l: "l \<in> set ls" and len: "length p = length pl" and row: "p ! nat l = pl ! nat l"
      and Q: "p ! nat ?r = pl ! nat ?r"
    show "?f l p = Inr (p[nat l := ?g l]) \<and> (p[nat l := ?g l]) ! nat ?r = pl ! nat ?r"
    proof (cases "l = ?r")
      case True
      then have "?f l p = Inr p" by (simp add: foldE_skip)
      moreover have "p[nat l := ?g l] = p"
        using True Q list_update_id [of p "nat ?r"] by simp
      ultimately show ?thesis using Q by simp
    next
      case False
      then have "?f l p = foldE (\<lambda>i pl.
           bindE (get2 pl ?r 0) (\<lambda>target.
           bindE (get2 pl ?r (int i)) (\<lambda>source.
           bindE (get2 pl l (int i)) (\<lambda>reference.
           set2 pl l (int i) (IterativeClosestPoint lib w source target (Some reference))))))
         [0..<n] p" by simp
      also have "\<dots> = Inr (p[nat l := map (\<lambda>i. IterativeClosestPoint lib w (p ! nat ?r ! i)
                                     (p ! nat ?r ! 0) (Some (p ! nat l ! i))) [0..<n]])"
        using assms l len row Q False by (intro register_to_reference_bone_row) auto
      finally have a: "?f l p = Inr (p[nat l := ?g l])" using row Q False by simp
      have "nat l \<noteq> nat ?r" using False assms(2,3) l by auto
      then have "(p[nat l := ?g l]) ! nat ?r = pl ! nat ?r" using Q by simp
      with a show ?thesis by simp
    qed
  qed simp
  then obtain pl2 where r: "foldE ?f ls pl = Inr pl2" "length pl2 = length pl"
    "\<forall>l\<in>set ls. pl2 ! nat l = ?g l"
    "\<forall>k<length pl. int k \<notin> set ls \<longrightarrow> pl2 ! k = pl ! k" "pl2 ! nat ?r = pl ! nat ?r"
    by blast
  have "\<forall>l\<in>set ls. l \<noteq> ?r \<longrightarrow> pl2 ! nat l =
              map (\<lambda>i. IterativeClosestPoint lib w (pl ! nat ?r ! i)
                         (pl ! nat ?r ! 0) (Some (pl ! nat l ! i))) [0..<n]"
    using r(3) by simp
  then show ?thesis using r(1,2,4,5) by (simp add: register_to_reference_bone_def)
qed

text \<open>The third loop: entry 0 of the reference row is replaced first, and the later rounds
  read the replaced entry as their target.\<close>

definition registered_reference ::
  "('img, 'p) training_vtk \<Rightarrow> training_widget \<Rightarrow> 'p polydata list \<Rightarrow> nat \<Rightarrow> 'p polydata" where
  "registered_reference lib w row i =
     (let first = IterativeClosestPoint lib w (row ! 0) (row ! 0) (Some (row ! 0))
      in if i = 0 then first
         else IterativeClosestPoint lib w (row ! i) first (Some (row ! i)))"

lemma register_reference_bone_result:
  assumes "0 \<le> ref_label w" and "nat (ref_label w) < length pl"
    and "length (pl ! nat (ref_label w)) = n"
  shows "register_reference_bone lib w n pl =
           Inr (pl[nat (ref_label w) :=
                     map (registered_reference lib w (pl ! nat (ref_label w))) [0..<n]])"
  unfolding register_reference_bone_def
proof (rule row_loop [OF assms(2,3)])
  fix i assume i: "i < n"
  let ?r = "ref_label w"
  let ?R = "pl ! nat ?r"
  let ?h = "registered_reference lib w ?R"
  let ?row = "map ?h [0..<i] @ drop i ?R"
  let ?p = "pl[nat ?r := ?row]"
  have len: "length ?row = n" using i assms(3) by simp
  have p: "nat ?r < length ?p" "?p ! nat ?r = ?row" using assms(2) by simp_all
  have row0: "?row ! 0 = (if i = 0 then ?R ! 0 else ?h 0)"
    using i assms(3) by (cases i) (simp_all add: nth_append upt_rec)
  have rowi: "?row ! i = ?R ! i"
    using partial_row_nth [of i ?R ?h] i assms(3) by simp
  have "get2 ?p ?r (int 0) = Inr (?p ! nat ?r ! 0)"
    using assms(1) p len i by (intro get2_valid) auto
  then have t: "get2 ?p ?r 0 = Inr (if i = 0 then ?R ! 0 else ?h 0)"
    using p(2) row0 by simp
  have "get2 ?p ?r (int i) = Inr (?p ! nat ?r ! i)"
    using assms(1) p len i by (intro get2_valid) auto
  then have s: "get2 ?p ?r (int i) = Inr (?R ! i)" using p(2) rowi by simp
  have hi: "IterativeClosestPoint lib w (?R ! i) (if i = 0 then ?R ! 0 else ?h 0) (Some (?R ! i))
              = ?h i"
    by (simp add: registered_reference_def Let_def)
  have "set2 ?p ?r (int i) (?h i) = Inr (?p[nat ?r := (?p ! nat ?r)[i := ?h i]])"
    using assms(1) p len i by (intro set2_valid) auto
  then have u: "set2 ?p ?r (int i) (?h i) = Inr (pl[nat ?r := ?row[i := ?h i]])"
    using p(2) by simp
  show "bindE (get2 ?p ?r 0) (\<lambda>target.
           bindE (get2 ?p ?r (int i)) (\<lambda>source.
           bindE (get2 ?p ?r (int i)) (\<lambda>reference.
           set2 ?p ?r (int i) (IterativeClosestPoint lib w source target (Some reference)))))
        = Inr (pl[nat ?r := ?row[i := ?h i]])"
    by (simp only: t s bindE_simps hi u)
qed

lemma extract_row:
  assumes "0 \<le> l" and "nat l < length pl"
  shows "foldE (\<lambda>img pl. append2 pl l (E img)) images pl
           = Inr (pl[nat l := pl ! nat l @ map E images])"
  using assms
proof (induction images arbitrary: pl)
  case Nil
  then show ?case by simp
next
  case (Cons img images)
  have "append2 pl l (E img) = Inr (pl[nat l := pl ! nat l @ [E img]])"
    using Cons.prems by (simp add: append2_valid)
  moreover have "foldE (\<lambda>img pl. append2 pl l (E img)) images (pl[nat l := pl ! nat l @ [E img]])
      = Inr ((pl[nat l := pl ! nat l @ [E img]])
               [nat l := (pl[nat l := pl ! nat l @ [E img]]) ! nat l @ map E images])"
    using Cons.prems by (intro Cons.IH) simp_all
  ultimately show ?case using Cons.prems by simp
qed

lemma extract_surfaces_result:
  assumes "distinct ls" and "\<forall>l\<in>set ls. 0 \<le> l \<and> nat l < length pl"
  shows "\<exists>pl'. extract_surfaces lib w ls images pl = Inr pl' \<and> length pl' = length pl \<and>
           (\<forall>l\<in>set ls. pl' ! nat l
                = pl ! nat l @ map (\<lambda>img. Extract_Surface lib w img l) images) \<and>
           (\<forall>k<length pl. int k \<notin> set ls \<longrightarrow> pl' ! k = pl ! k)"
proof -
  let ?f = "\<lambda>label. foldE (\<lambda>img pl. append2 pl label (Extract_Surface lib w img label)) images"
  let ?g = "\<lambda>l. pl ! nat l @ map (\<lambda>img. Extract_Surface lib w img l) images"
  have "\<exists>pl'. foldE ?f ls pl = Inr pl' \<and> length pl' = length pl \<and>
           (\<forall>l\<in>set ls. pl' ! nat l = ?g l) \<and>
           (\<forall>k<length pl. int k \<notin> set ls \<longrightarrow> pl' ! k = pl ! k) \<and> True"
  proof (rule label_loop [OF assms, where Q = "\<lambda>_. True"])
    fix l p
    assume l: "l \<in> set ls" and len: "length p = length pl" and row: "p ! nat l = pl ! nat l"
    have "?f l p = Inr (p[nat l := p ! nat l @ map (\<lambda>img. Extract_Surface lib w img l) images])"
      using assms(2) l len by (intro extract_row) auto
    then show "?f l p = Inr (p[nat l := ?g l]) \<and> True" using row by simp
  qed simp
  then show ?thesis by (auto simp: extract_surfaces_def)
qed

lemma IterativeClosestPoint_None:
  "IterativeClosestPoint lib w source target None
     = vtkTransformPolyDataFilter (vtkIterativeClosestPointTransform lib (icp w) source target) source"
  by (simp add: IterativeClosestPoint_def Let_def)

lemma IterativeClosestPoint_Some:
  "IterativeClosestPoint lib w source target (Some r)
     = vtkTransformPolyDataFilter (vtkIterativeClosestPointTransform lib (icp w) source target) r"
  by (simp add: IterativeClosestPoint_def Let_def)

lemma transform_topology:
  "polys (vtkTransformPolyDataFilter T m) = polys m"
  "length (points (vtkTransformPolyDataFilter T m)) = length (points m)"
  by (simp_all add: vtkTransformPolyDataFilter_def)

lemma reference_shape_registration_aux:
  assumes "distinct ls"
    and "\<forall>l\<in>set ls. 0 \<le> l \<and> l \<le> max_bone_label"
    and "images \<noteq> []"
  shows "\<exists>pl refs pl1.
           extract_surfaces lib w ls images (replicate (nat (max_bone_label + 1)) []) = Inr pl \<and>
           reference_shapes ls max_bone_label pl = Inr refs \<and>
           register_reference_shapes lib w ls (length images) refs pl = Inr pl1 \<and>
           length pl = nat (max_bone_label + 1) \<and> length pl1 = length pl \<and>
           (\<forall>l\<in>set ls. pl ! nat l = map (\<lambda>img. Extract_Surface lib w img l) images \<and>
              refs ! nat l = [Extract_Surface lib w (images ! 0) l] \<and>
              pl1 ! nat l = map (\<lambda>i. IterativeClosestPoint lib w
                                   (Extract_Surface lib w (images ! 0) l)
                                   (Extract_Surface lib w (images ! i) l) None)
                              [0..<length images])"
proof -
  let ?init = "replicate (nat (max_bone_label + 1)) ([] :: 'b polydata list)"
  let ?n = "length images"
  have v0: "\<forall>l\<in>set ls. 0 \<le> l \<and> nat l < length ?init" using assms(2) by auto
  from extract_surfaces_result [OF assms(1) v0, of lib w images]
  obtain pl where pl: "extract_surfaces lib w ls images ?init = Inr pl"
    "length pl = length ?init"
    "\<forall>l\<in>set ls. pl ! nat l = ?init ! nat l @ map (\<lambda>img. Extract_Surface lib w img l) images"
    by blast
  have rows: "\<forall>l\<in>set ls. pl ! nat l = map (\<lambda>img. Extract_Surface lib w img l) images"
    using pl(3) v0 by simp
  have v1: "\<forall>l\<in>set ls. 0 \<le> l \<and> l \<le> max_bone_label \<and> nat l < length pl \<and> pl ! nat l \<noteq> []"
    using assms(2,3) rows pl(2) by auto
  from reference_shapes_result [OF assms(1) v1]
  obtain refs where refs: "reference_shapes ls max_bone_label pl = Inr refs"
    "length refs = nat (max_bone_label + 1)" "\<forall>l\<in>set ls. refs ! nat l = [pl ! nat l ! 0]"
    by blast
  have n0: "0 < ?n" using assms(3) by simp
  have refs0: "\<forall>l\<in>set ls. refs ! nat l = [Extract_Surface lib w (images ! 0) l]"
    using refs(3) rows n0 by simp
  have v2: "\<forall>l\<in>set ls. 0 \<le> l \<and> nat l < length pl \<and> length (pl ! nat l) = ?n"
    using v1 rows by simp
  have v3: "\<forall>l\<in>set ls. nat l < length refs \<and> refs ! nat l \<noteq> []"
    using refs(2,3) v1 pl(2) by simp
  from register_reference_shapes_result [OF assms(1) v2 v3, of lib w]
  obtain pl1 where pl1: "register_reference_shapes lib w ls ?n refs pl = Inr pl1"
    "length pl1 = length pl"
    "\<forall>l\<in>set ls. pl1 ! nat l =
        map (\<lambda>i. IterativeClosestPoint lib w (refs ! nat l ! 0) (pl ! nat l ! i) None) [0..<?n]"
    by blast
  have "\<forall>l\<in>set ls. pl1 ! nat l = map (\<lambda>i. IterativeClosestPoint lib w
                                   (Extract_Surface lib w (images ! 0) l)
                                   (Extract_Surface lib w (images ! i) l) None) [0..<?n]"
  proof
    fix l assume l: "l \<in> set ls"
    have "map (\<lambda>i. IterativeClosestPoint lib w (refs ! nat l ! 0) (pl ! nat l ! i) None) [0..<?n]
        = map (\<lambda>i. IterativeClosestPoint lib w (Extract_Surface lib w (images ! 0) l)
                      (Extract_Surface lib w (images ! i) l) None) [0..<?n]"
      using refs0 rows l by (intro map_cong) simp_all
    then show "pl1 ! nat l = map (\<lambda>i. IterativeClosestPoint lib w
                                   (Extract_Surface lib w (images ! 0) l)
                                   (Extract_Surface lib w (images ! i) l) None) [0..<?n]"
      using pl1(3) l by simp
  qed
  then show ?thesis using pl(1,2) refs(1) pl1(1,2) rows refs0 by auto
qed

text \<open>A small concrete instance: surfaces on a line (points are integers), and as the ICP
  engine the translation that matches the centroids.\<close>

definition centroid :: "int polydata \<Rightarrow> int" where
  "centroid m = (if points m = [] then 0 else sum_list (points m) div int (length (points m)))"

definition centroid_icp :: "icp_settings \<Rightarrow> int polydata \<Rightarrow> int polydata \<Rightarrow> int \<Rightarrow> int" where
  "centroid_icp st source target p = p + (centroid target - centroid source)"

definition example_segmentation :: "string \<Rightarrow> int \<Rightarrow> int polydata" where
  "example_segmentation path label =
     (if path = ''seg/s2.nii''
      then \<lparr>points = [10 * label, 10 * label + 2], polys = [[0, 1]]\<rparr>
      else \<lparr>points = [100 + 10 * label, 102 + 10 * label, 104 + 10 * label],
            polys = [[0, 1, 2]]\<rparr>)"

definition example_training_vtk :: "(int \<Rightarrow> int polydata, int) training_vtk" where
  "example_training_vtk =
     \<lparr> vtkNIFTIImageReader = example_segmentation,
       vtkImageFlip = (\<lambda>axis img. img),
       vtkDiscreteMarchingCubes = (\<lambda>img label. img label),
       surface_filters =
         \<lparr> vtkPolyDataNormals = (\<lambda>m. m), vtkCleanPolyData = (\<lambda>m. m),
           vtkSmoothPolyDataFilter = (\<lambda>n r m. m), vtkDecimatePro = (\<lambda>d m. m) \<rparr>,
       vtkIterativeClosestPointTransform = centroid_icp \<rparr>"

definition example_training_widget :: training_widget where
  "example_training_widget =
     \<lparr> lineedit_labels = [1, 2], Ref_Bone_Slider_minimum = 1, Ref_Bone_Slider_maximum = 2,
       ref_label = 2, num_files = - 1,
       flip_image_vertically = False, flip_image_horizontally = False,
       Save_Extracted_Bones_Separately = False, Skip_Registration = False,
       Remove_Ref_Bone = False, Save_Registered_Bones_Separately = False,
       smoothing = \<lparr>smoothing_iterations = 10, relaxation_factor = 4 / 10,
                     decimate_surface = 0\<rparr>,
       icp = \<lparr>icp_mode = Rigid, IterationNumber = 100, LandmarkNumber = 200,
               RMS_Number = 1 / 100\<rparr>,
       segmentation_directory = ''seg'' \<rparr>"

definition example_images :: "(int \<Rightarrow> int polydata) list" where
  "example_images = [example_segmentation ''seg/s2.nii'', example_segmentation ''seg/s10.nii'']"

lemma example_Extract_Surface:
  "Extract_Surface example_training_vtk example_training_widget (example_images ! 0) l
     = \<lparr>points = [10 * l, 10 * l + 2], polys = [[0, 1]]\<rparr>"
  "Extract_Surface example_training_vtk example_training_widget (example_images ! Suc 0) l
     = \<lparr>points = [100 + 10 * l, 102 + 10 * l, 104 + 10 * l], polys = [[0, 1, 2]]\<rparr>"
  by (simp_all add: Extract_Surface_def Smooth_Surface_def example_training_vtk_def
      example_training_widget_def example_images_def example_segmentation_def Let_def)

lemma example_icp:
  "vtkIterativeClosestPointTransform example_training_vtk st source target p
     = p + (centroid target - centroid source)"
  by (simp add: example_training_vtk_def centroid_icp_def)

text \<open>
  Claim C3.  In the first registration loop, for every bone label and every subject \<open>i\<close>, the
  ICP source is the label's reference shape (the surface extracted from the first image), the
  target is the surface extracted from image \<open>i\<close>, and entry \<open>i\<close> of the label's row is replaced
  by the transformed reference shape; so every entry has the cells and the number (and order)
  of points of the reference shape.  The labels are a set of non-negative labels (no label
  twice), as the bone set is indexed by them.
\<close>

theorem reference_shape_registration:
  assumes "distinct ls" and "\<forall>l\<in>set ls. 0 \<le> l \<and> l \<le> max_bone_label" and "images \<noteq> []"
  shows "\<exists>pl refs pl1.
           extract_surfaces lib w ls images (replicate (nat (max_bone_label + 1)) []) = Inr pl \<and>
           reference_shapes ls max_bone_label pl = Inr refs \<and>
           register_reference_shapes lib w ls (length images) refs pl = Inr pl1 \<and>
           (\<forall>l\<in>set ls. \<forall>i<length images.
              pl ! nat l ! i = Extract_Surface lib w (images ! i) l \<and>
              pl1 ! nat l ! i =
                vtkTransformPolyDataFilter
                  (vtkIterativeClosestPointTransform lib (icp w)
                     (Extract_Surface lib w (images ! 0) l)
                     (Extract_Surface lib w (images ! i) l))
                  (Extract_Surface lib w (images ! 0) l) \<and>
              polys (pl1 ! nat l ! i) = polys (Extract_Surface lib w (images ! 0) l) \<and>
              length (points (pl1 ! nat l ! i))
                = length (points (Extract_Surface lib w (images ! 0) l)))"
proof -
  from reference_shape_registration_aux [OF assms, of lib w]
  obtain pl refs pl1 where r:
    "extract_surfaces lib w ls images (replicate (nat (max_bone_label + 1)) []) = Inr pl"
    "reference_shapes ls max_bone_label pl = Inr refs"
    "register_reference_shapes lib w ls (length images) refs pl = Inr pl1"
    "\<forall>l\<in>set ls. pl ! nat l = map (\<lambda>img. Extract_Surface lib w img l) images \<and>
              refs ! nat l = [Extract_Surface lib w (images ! 0) l] \<and>
              pl1 ! nat l = map (\<lambda>i. IterativeClosestPoint lib w
                                   (Extract_Surface lib w (images ! 0) l)
                                   (Extract_Surface lib w (images ! i) l) None)
                              [0..<length images]"
    by blast
  have "\<forall>l\<in>set ls. \<forall>i<length images.
              pl ! nat l ! i = Extract_Surface lib w (images ! i) l \<and>
              pl1 ! nat l ! i =
                vtkTransformPolyDataFilter
                  (vtkIterativeClosestPointTransform lib (icp w)
                     (Extract_Surface lib w (images ! 0) l)
                     (Extract_Surface lib w (images ! i) l))
                  (Extract_Surface lib w (images ! 0) l) \<and>
              polys (pl1 ! nat l ! i) = polys (Extract_Surface lib w (images ! 0) l) \<and>
              length (points (pl1 ! nat l ! i))
                = length (points (Extract_Surface lib w (images ! 0) l))"
    using r(4) by (simp add: IterativeClosestPoint_None transform_topology)
  then show ?thesis using r(1,2,3) by blast
qed

theorem reference_shape_registration_witness:
  "\<exists>pl refs pl1.
     extract_surfaces example_training_vtk example_training_widget [1, 2] example_images
       (replicate (nat (2 + 1)) []) = Inr pl \<and>
     reference_shapes [1, 2] 2 pl = Inr refs \<and>
     register_reference_shapes example_training_vtk example_training_widget [1, 2]
       (length example_images) refs pl = Inr pl1 \<and>
     pl ! 1 ! 1 = \<lparr>points = [110, 112, 114], polys = [[0, 1, 2]]\<rparr> \<and>
     pl1 ! 1 ! 1 = \<lparr>points = [111, 113], polys = [[0, 1]]\<rparr> \<and>
     pl1 ! 2 ! 0 = \<lparr>points = [20, 22], polys = [[0, 1]]\<rparr>"
proof -
  have d: "distinct [1, 2 :: int]" and v: "\<forall>l\<in>set [1, 2 :: int]. 0 \<le> l \<and> l \<le> 2"
    and ne: "example_images \<noteq> []"
    by (simp_all add: example_images_def)
  from reference_shape_registration [OF d v ne, of example_training_vtk example_training_widget]
  obtain pl refs pl1 where r:
    "extract_surfaces example_training_vtk example_training_widget [1, 2] example_images
       (replicate (nat (2 + 1)) []) = Inr pl"
    "reference_shapes [1, 2] 2 pl = Inr refs"
    "register_reference_shapes example_training_vtk example_training_widget [1, 2]
       (length example_images) refs pl = Inr pl1"
    and e: "\<forall>l\<in>set [1, 2 :: int]. \<forall>i<length example_images.
              pl ! nat l ! i = Extract_Surface example_training_vtk example_training_widget
                                 (example_images ! i) l \<and>
              pl1 ! nat l ! i =
                vtkTransformPolyDataFilter
                  (vtkIterativeClosestPointTransform example_training_vtk
                     (icp example_training_widget)
                     (Extract_Surface example_training_vtk example_training_widget
                        (example_images ! 0) l)
                     (Extract_Surface example_training_vtk example_training_widget
                        (example_images ! i) l))
                  (Extract_Surface example_training_vtk example_training_widget
                     (example_images ! 0) l)"
    by blast
  have len: "length example_images = 2" by (simp add: example_images_def)
  from e have "pl ! nat 1 ! 1 = Extract_Surface example_training_vtk example_training_widget
                                 (example_images ! 1) 1"
    and "pl1 ! nat 1 ! 1 =
                vtkTransformPolyDataFilter
                  (vtkIterativeClosestPointTransform example_training_vtk
                     (icp example_training_widget)
                     (Extract_Surface example_training_vtk example_training_widget
                        (example_images ! 0) 1)
                     (Extract_Surface example_training_vtk example_training_widget
                        (example_images ! 1) 1))
                  (Extract_Surface example_training_vtk example_training_widget
                     (example_images ! 0) 1)"
    and "pl1 ! nat 2 ! 0 =
                vtkTransformPolyDataFilter
                  (vtkIterativeClosestPointTransform example_training_vtk
                     (icp example_training_widget)
                     (Extract_Surface example_training_vtk example_training_widget
                        (example_images ! 0) 2)
                     (Extract_Surface example_training_vtk example_training_widget
                        (example_images ! 0) 2))
                  (Extract_Surface example_training_vtk example_training_widget
                     (example_images ! 0) 2)"
    by (simp_all add: len)
  then have "pl ! 1 ! 1 = \<lparr>points = [110, 112, 114], polys = [[0, 1, 2]]\<rparr>"
    and "pl1 ! 1 ! 1 = \<lparr>points = [111, 113], polys = [[0, 1]]\<rparr>"
    and "pl1 ! 2 ! 0 = \<lparr>points = [20, 22], polys = [[0, 1]]\<rparr>"
    by (simp_all add: example_Extract_Surface vtkTransformPolyDataFilter_def example_icp
        centroid_def)
  then show ?thesis using r by blast
qed

text \<open>The bone set of the concrete instance after extraction (row 0 is unused, rows 1 and 2
  hold the two subjects of labels 1 and 2), and after the first registration loop.\<close>

definition example_extracted :: "int polydata list list" where
  "example_extracted =
     [[],
      [\<lparr>points = [10, 12], polys = [[0, 1]]\<rparr>,
       \<lparr>points = [110, 112, 114], polys = [[0, 1, 2]]\<rparr>],
      [\<lparr>points = [20, 22], polys = [[0, 1]]\<rparr>,
       \<lparr>points = [120, 122, 124], polys = [[0, 1, 2]]\<rparr>]]"

definition example_registered :: "int polydata list list" where
  "example_registered =
     [[],
      [\<lparr>points = [10, 12], polys = [[0, 1]]\<rparr>, \<lparr>points = [111, 113], polys = [[0, 1]]\<rparr>],
      [\<lparr>points = [20, 22], polys = [[0, 1]]\<rparr>, \<lparr>points = [121, 123], polys = [[0, 1]]\<rparr>]]"

lemmas example_defs = example_training_vtk_def example_training_widget_def
  centroid_icp_def centroid_def IterativeClosestPoint_def vtkTransformPolyDataFilter_def
  get2_def set2_def append2_def getitem_def setitem_def py_index_def Let_def

lemma upt_2: "[0..<2] = [0, 1]"
  by (simp add: upt_rec numeral_2_eq_2)

lemma e1: "register_to_reference_bone example_training_vtk example_training_widget [1, 2] 2
         example_registered
       = Inr [[],
          [\<lparr>points = [10, 12], polys = [[0, 1]]\<rparr>, \<lparr>points = [10, 12], polys = [[0, 1]]\<rparr>],
          [\<lparr>points = [20, 22], polys = [[0, 1]]\<rparr>, \<lparr>points = [121, 123], polys = [[0, 1]]\<rparr>]]"
  by (simp add: register_to_reference_bone_def example_registered_def upt_2 example_defs)

lemma e2: "registration example_training_vtk example_training_widget [1, 2] 2 2
         example_extracted
       = Inr [[],
          [\<lparr>points = [10, 12], polys = [[0, 1]]\<rparr>, \<lparr>points = [10, 12], polys = [[0, 1]]\<rparr>],
          [\<lparr>points = [20, 22], polys = [[0, 1]]\<rparr>, \<lparr>points = [20, 22], polys = [[0, 1]]\<rparr>]]"
  by (simp add: registration_def reference_shapes_def register_reference_shapes_def
      register_to_reference_bone_def register_reference_bone_def
      example_extracted_def upt_2 example_defs)

text \<open>The registration with the second and the third loop exchanged, for comparison with
  \<open>registration\<close>.\<close>

definition registration_reordered ::
  "('img, 'p) training_vtk \<Rightarrow> training_widget \<Rightarrow> int list \<Rightarrow> int \<Rightarrow> nat
     \<Rightarrow> 'p polydata list list \<Rightarrow> error + 'p polydata list list" where
  "registration_reordered lib w ls max_bone_label n pl =
     bindE (reference_shapes ls max_bone_label pl) (\<lambda>refs.
     bindE (register_reference_shapes lib w ls n refs pl) (\<lambda>pl.
     bindE (register_reference_bone lib w n pl) (\<lambda>pl.
     register_to_reference_bone lib w ls n pl)))"

lemma nth_map_upt: "i < n \<Longrightarrow> map f [0..<n] ! i = f i"
  by simp

lemma later_passes:
  assumes "distinct ls"
    and "\<forall>l\<in>set ls. 0 \<le> l \<and> nat l < length pl1 \<and> length (pl1 ! nat l) = n"
    and "ref_label w \<in> set ls"
  shows "\<exists>pl2 pl3 pl2' pl3'.
           register_to_reference_bone lib w ls n pl1 = Inr pl2 \<and>
           register_reference_bone lib w n pl2 = Inr pl3 \<and>
           register_reference_bone lib w n pl1 = Inr pl2' \<and>
           register_to_reference_bone lib w ls n pl2' = Inr pl3' \<and>
           pl2 ! nat (ref_label w) = pl1 ! nat (ref_label w) \<and>
           (\<forall>l\<in>set ls. l \<noteq> ref_label w \<longrightarrow>
              pl3 ! nat l = pl2 ! nat l \<and>
              (\<forall>i<n. pl2 ! nat l ! i =
                 IterativeClosestPoint lib w (pl1 ! nat (ref_label w) ! i)
                   (pl1 ! nat (ref_label w) ! 0) (Some (pl1 ! nat l ! i))) \<and>
              (\<forall>i<n. pl3' ! nat l ! i =
                 IterativeClosestPoint lib w (pl3 ! nat (ref_label w) ! i)
                   (pl3 ! nat (ref_label w) ! 0) (Some (pl1 ! nat l ! i)))) \<and>
           pl3 ! nat (ref_label w)
             = map (registered_reference lib w (pl1 ! nat (ref_label w))) [0..<n] \<and>
           pl3' ! nat (ref_label w) = pl3 ! nat (ref_label w)"
proof -
  let ?r = "ref_label w"
  let ?k = "nat ?r"
  have r: "0 \<le> ?r" "?k < length pl1" "length (pl1 ! ?k) = n" using assms(2,3) by auto
  from register_to_reference_bone_result [OF assms(1,2) r, of lib]
  obtain pl2 where pl2: "register_to_reference_bone lib w ls n pl1 = Inr pl2"
    "length pl2 = length pl1"
    "\<forall>l\<in>set ls. l \<noteq> ?r \<longrightarrow> pl2 ! nat l =
        map (\<lambda>i. IterativeClosestPoint lib w (pl1 ! ?k ! i) (pl1 ! ?k ! 0)
                   (Some (pl1 ! nat l ! i))) [0..<n]"
    "pl2 ! ?k = pl1 ! ?k"
    by blast
  have r2: "?k < length pl2" "length (pl2 ! ?k) = n" using pl2(2,4) r by simp_all
  let ?pl3 = "pl2[?k := map (registered_reference lib w (pl2 ! ?k)) [0..<n]]"
  have pl3: "register_reference_bone lib w n pl2 = Inr ?pl3"
    using register_reference_bone_result [OF r(1) r2] .
  let ?pl2' = "pl1[?k := map (registered_reference lib w (pl1 ! ?k)) [0..<n]]"
  have pl2': "register_reference_bone lib w n pl1 = Inr ?pl2'"
    using register_reference_bone_result [OF r] .
  have wf': "\<forall>l\<in>set ls. 0 \<le> l \<and> nat l < length ?pl2' \<and> length (?pl2' ! nat l) = n"
  proof
    fix l assume l: "l \<in> set ls"
    then have a: "0 \<le> l" "nat l < length pl1" "length (pl1 ! nat l) = n" using assms(2) by auto
    have "length (?pl2' ! nat l) = n"
      using a r by (cases "nat l = ?k") simp_all
    then show "0 \<le> l \<and> nat l < length ?pl2' \<and> length (?pl2' ! nat l) = n" using a by simp
  qed
  have r': "?k < length ?pl2'" "length (?pl2' ! ?k) = n" using r by simp_all
  from register_to_reference_bone_result [OF assms(1) wf' r(1) r', of lib]
  obtain pl3' where pl3': "register_to_reference_bone lib w ls n ?pl2' = Inr pl3'"
    "\<forall>l\<in>set ls. l \<noteq> ?r \<longrightarrow> pl3' ! nat l =
        map (\<lambda>i. IterativeClosestPoint lib w (?pl2' ! ?k ! i) (?pl2' ! ?k ! 0)
                   (Some (?pl2' ! nat l ! i))) [0..<n]"
    "pl3' ! ?k = ?pl2' ! ?k"
    by blast
  have ref3: "?pl3 ! ?k = map (registered_reference lib w (pl1 ! ?k)) [0..<n]"
    using r2 pl2(4) by simp
  have ref3': "pl3' ! ?k = ?pl3 ! ?k" using pl3'(3) ref3 r by simp
  have other: "\<forall>l\<in>set ls. l \<noteq> ?r \<longrightarrow>
              ?pl3 ! nat l = pl2 ! nat l \<and>
              (\<forall>i<n. pl2 ! nat l ! i =
                 IterativeClosestPoint lib w (pl1 ! ?k ! i) (pl1 ! ?k ! 0) (Some (pl1 ! nat l ! i))) \<and>
              (\<forall>i<n. pl3' ! nat l ! i =
                 IterativeClosestPoint lib w (?pl3 ! ?k ! i) (?pl3 ! ?k ! 0)
                   (Some (pl1 ! nat l ! i)))"
  proof (intro ballI impI conjI allI)
    fix l assume l: "l \<in> set ls" "l \<noteq> ?r"
    then have ne: "nat l \<noteq> ?k" using assms(2) r(1) by auto
    show "?pl3 ! nat l = pl2 ! nat l" using ne by simp
    fix i assume i: "i < n"
    show "pl2 ! nat l ! i =
            IterativeClosestPoint lib w (pl1 ! ?k ! i) (pl1 ! ?k ! 0) (Some (pl1 ! nat l ! i))"
      using pl2(3) l i by simp
    have "pl3' ! nat l ! i =
            IterativeClosestPoint lib w (?pl2' ! ?k ! i) (?pl2' ! ?k ! 0) (Some (?pl2' ! nat l ! i))"
      using pl3'(2) l i by simp
    moreover have "?pl2' ! nat l = pl1 ! nat l" using ne by simp
    moreover have "?pl2' ! ?k = ?pl3 ! ?k" using ref3 r by simp
    ultimately show "pl3' ! nat l ! i =
            IterativeClosestPoint lib w (?pl3 ! ?k ! i) (?pl3 ! ?k ! 0) (Some (pl1 ! nat l ! i))"
      by simp
  qed
  show ?thesis
    using pl2(1,4) pl3 pl2' pl3'(1) other ref3 ref3' by blast
qed

lemma first_passes:
  assumes "distinct ls"
    and "\<forall>l\<in>set ls. 0 \<le> l \<and> l \<le> max_bone_label \<and> nat l < length pl \<and> length (pl ! nat l) = n"
    and "0 < n"
  shows "\<exists>refs pl1.
           reference_shapes ls max_bone_label pl = Inr refs \<and>
           register_reference_shapes lib w ls n refs pl = Inr pl1 \<and>
           (\<forall>l\<in>set ls. 0 \<le> l \<and> nat l < length pl1 \<and> length (pl1 ! nat l) = n)"
proof -
  have v1: "\<forall>l\<in>set ls. 0 \<le> l \<and> l \<le> max_bone_label \<and> nat l < length pl \<and> pl ! nat l \<noteq> []"
    using assms(2,3) by auto
  from reference_shapes_result [OF assms(1) v1]
  obtain refs where refs: "reference_shapes ls max_bone_label pl = Inr refs"
    "length refs = nat (max_bone_label + 1)" "\<forall>l\<in>set ls. refs ! nat l = [pl ! nat l ! 0]"
    by blast
  have v2: "\<forall>l\<in>set ls. 0 \<le> l \<and> nat l < length pl \<and> length (pl ! nat l) = n"
    using assms(2) by simp
  have v3: "\<forall>l\<in>set ls. nat l < length refs \<and> refs ! nat l \<noteq> []"
    using refs(2,3) assms(2) by auto
  from register_reference_shapes_result [OF assms(1) v2 v3, of lib w]
  obtain pl1 where pl1: "register_reference_shapes lib w ls n refs pl = Inr pl1"
    "length pl1 = length pl"
    "\<forall>l\<in>set ls. pl1 ! nat l =
        map (\<lambda>i. IterativeClosestPoint lib w (refs ! nat l ! 0) (pl ! nat l ! i) None) [0..<n]"
    by blast
  have "\<forall>l\<in>set ls. 0 \<le> l \<and> nat l < length pl1 \<and> length (pl1 ! nat l) = n"
    using pl1(2,3) assms(2) by simp
  then show ?thesis using refs(1) pl1(1) by blast
qed

lemma registration_stages:
  assumes "distinct ls"
    and "\<forall>l\<in>set ls. 0 \<le> l \<and> l \<le> max_bone_label \<and> nat l < length pl \<and> length (pl ! nat l) = n"
    and "0 < n" and "ref_label w \<in> set ls"
  shows "\<exists>refs pl1 pl2 pl3 pl3'.
           reference_shapes ls max_bone_label pl = Inr refs \<and>
           register_reference_shapes lib w ls n refs pl = Inr pl1 \<and>
           register_to_reference_bone lib w ls n pl1 = Inr pl2 \<and>
           register_reference_bone lib w n pl2 = Inr pl3 \<and>
           registration lib w ls max_bone_label n pl = Inr pl3 \<and>
           registration_reordered lib w ls max_bone_label n pl = Inr pl3' \<and>
           pl2 ! nat (ref_label w) = pl1 ! nat (ref_label w) \<and>
           (\<forall>l\<in>set ls. l \<noteq> ref_label w \<longrightarrow>
              pl3 ! nat l = pl2 ! nat l \<and>
              (\<forall>i<n. pl2 ! nat l ! i =
                 IterativeClosestPoint lib w (pl1 ! nat (ref_label w) ! i)
                   (pl1 ! nat (ref_label w) ! 0) (Some (pl1 ! nat l ! i))) \<and>
              (\<forall>i<n. pl3' ! nat l ! i =
                 IterativeClosestPoint lib w (pl3 ! nat (ref_label w) ! i)
                   (pl3 ! nat (ref_label w) ! 0) (Some (pl1 ! nat l ! i)))) \<and>
           pl3 ! nat (ref_label w)
             = map (registered_reference lib w (pl1 ! nat (ref_label w))) [0..<n] \<and>
           pl3' ! nat (ref_label w) = pl3 ! nat (ref_label w)"
proof -
  from first_passes [OF assms(1,2,3), of lib w]
  obtain refs pl1 where a: "reference_shapes ls max_bone_label pl = Inr refs"
    "register_reference_shapes lib w ls n refs pl = Inr pl1"
    "\<forall>l\<in>set ls. 0 \<le> l \<and> nat l < length pl1 \<and> length (pl1 ! nat l) = n"
    by blast
  from later_passes [OF assms(1) a(3) assms(4), of lib]
  obtain pl2 pl3 pl2' pl3' where b:
    "register_to_reference_bone lib w ls n pl1 = Inr pl2"
    "register_reference_bone lib w n pl2 = Inr pl3"
    "register_reference_bone lib w n pl1 = Inr pl2'"
    "register_to_reference_bone lib w ls n pl2' = Inr pl3'"
    and c: "pl2 ! nat (ref_label w) = pl1 ! nat (ref_label w)"
    "\<forall>l\<in>set ls. l \<noteq> ref_label w \<longrightarrow>
              pl3 ! nat l = pl2 ! nat l \<and>
              (\<forall>i<n. pl2 ! nat l ! i =
                 IterativeClosestPoint lib w (pl1 ! nat (ref_label w) ! i)
                   (pl1 ! nat (ref_label w) ! 0) (Some (pl1 ! nat l ! i))) \<and>
              (\<forall>i<n. pl3' ! nat l ! i =
                 IterativeClosestPoint lib w (pl3 ! nat (ref_label w) ! i)
                   (pl3 ! nat (ref_label w) ! 0) (Some (pl1 ! nat l ! i)))"
    "pl3 ! nat (ref_label w)
             = map (registered_reference lib w (pl1 ! nat (ref_label w))) [0..<n]"
    "pl3' ! nat (ref_label w) = pl3 ! nat (ref_label w)"
    by blast
  have r: "registration lib w ls max_bone_label n pl = Inr pl3"
    by (simp add: registration_def a(1,2) b(1,2))
  have r': "registration_reordered lib w ls max_bone_label n pl = Inr pl3'"
    by (simp add: registration_reordered_def a(1,2) b(3,4))
  show ?thesis
    using a(1,2) b(1,2) r r' c by blast
qed

text \<open>
  Claim C2, as amended.  In the second loop, for every label other than the reference label
  and every subject \<open>i\<close>, the ICP source is the reference bone of subject \<open>i\<close> and the ICP
  target is the reference bone of subject 0; the transform found is applied to the entry
  \<open>i\<close> of the label's row (the bone itself is not registered); the row of the reference label
  is left as it is.
\<close>

theorem reference_transform_propagation:
  assumes "distinct ls"
    and "\<forall>l\<in>set ls. 0 \<le> l \<and> nat l < length pl \<and> length (pl ! nat l) = n"
    and "ref_label w \<in> set ls"
  shows "\<exists>pl2. register_to_reference_bone lib w ls n pl = Inr pl2 \<and>
           (\<forall>l\<in>set ls. l \<noteq> ref_label w \<longrightarrow>
              (\<forall>i<n. pl2 ! nat l ! i =
                 vtkTransformPolyDataFilter
                   (vtkIterativeClosestPointTransform lib (icp w)
                      (pl ! nat (ref_label w) ! i) (pl ! nat (ref_label w) ! 0))
                   (pl ! nat l ! i))) \<and>
           pl2 ! nat (ref_label w) = pl ! nat (ref_label w)"
proof -
  have r: "0 \<le> ref_label w" "nat (ref_label w) < length pl"
    "length (pl ! nat (ref_label w)) = n"
    using assms(2,3) by auto
  from register_to_reference_bone_result [OF assms(1,2) r, of lib]
  obtain pl2 where pl2: "register_to_reference_bone lib w ls n pl = Inr pl2"
    "\<forall>l\<in>set ls. l \<noteq> ref_label w \<longrightarrow> pl2 ! nat l =
        map (\<lambda>i. IterativeClosestPoint lib w (pl ! nat (ref_label w) ! i)
                   (pl ! nat (ref_label w) ! 0) (Some (pl ! nat l ! i))) [0..<n]"
    "pl2 ! nat (ref_label w) = pl ! nat (ref_label w)"
    by blast
  have "\<forall>l\<in>set ls. l \<noteq> ref_label w \<longrightarrow>
              (\<forall>i<n. pl2 ! nat l ! i =
                 vtkTransformPolyDataFilter
                   (vtkIterativeClosestPointTransform lib (icp w)
                      (pl ! nat (ref_label w) ! i) (pl ! nat (ref_label w) ! 0))
                   (pl ! nat l ! i))"
    using pl2(2) by (simp add: IterativeClosestPoint_Some)
  then show ?thesis using pl2(1,3) by blast
qed

lemma example_registered_wf:
  "distinct [1, 2 :: int]"
  "\<forall>l\<in>set [1, 2 :: int]. 0 \<le> l \<and> nat l < length example_registered
      \<and> length (example_registered ! nat l) = 2"
  "ref_label example_training_widget \<in> set [1, 2 :: int]"
  by (simp_all add: example_registered_def example_training_widget_def)

theorem reference_transform_propagation_witness:
  "\<exists>pl2. register_to_reference_bone example_training_vtk example_training_widget [1, 2] 2
            example_registered = Inr pl2 \<and>
         pl2 ! 1 ! 1 = \<lparr>points = [10, 12], polys = [[0, 1]]\<rparr> \<and>
         pl2 ! 2 = example_registered ! 2"
proof -
  from reference_transform_propagation [OF example_registered_wf, of example_training_vtk]
  obtain pl2 where a:
    "register_to_reference_bone example_training_vtk example_training_widget [1, 2] 2
       example_registered = Inr pl2"
    and b: "\<forall>l\<in>set [1, 2 :: int]. l \<noteq> ref_label example_training_widget \<longrightarrow>
              (\<forall>i<2. pl2 ! nat l ! i =
                 vtkTransformPolyDataFilter
                   (vtkIterativeClosestPointTransform example_training_vtk
                      (icp example_training_widget)
                      (example_registered ! nat (ref_label example_training_widget) ! i)
                      (example_registered ! nat (ref_label example_training_widget) ! 0))
                   (example_registered ! nat l ! i))"
    and c: "pl2 ! nat (ref_label example_training_widget)
              = example_registered ! nat (ref_label example_training_widget)"
    by blast
  have ref: "ref_label example_training_widget = 2" by (simp add: example_training_widget_def)
  from b have "pl2 ! nat 1 ! 1 =
                 vtkTransformPolyDataFilter
                   (vtkIterativeClosestPointTransform example_training_vtk
                      (icp example_training_widget)
                      (example_registered ! nat 2 ! 1) (example_registered ! nat 2 ! 0))
                   (example_registered ! nat 1 ! 1)"
    by (simp add: ref)
  then have "pl2 ! 1 ! 1 = \<lparr>points = [10, 12], polys = [[0, 1]]\<rparr>"
    by (simp add: example_registered_def example_icp centroid_def vtkTransformPolyDataFilter_def
        numeral_2_eq_2)
  moreover have "pl2 ! 2 = example_registered ! 2" using c by (simp add: ref)
  ultimately show ?thesis using a by blast
qed

text \<open>
  The claim C2 as stated has source and target exchanged (reference bone of subject 0 as the
  source, of subject \<open>i\<close> as the target).  On the concrete instance the second loop moves
  bone 1 of subject 1 to \<open>[10, 12]\<close>, while the transform of the claimed alignment would move
  it to \<open>[212, 214]\<close>.
\<close>

theorem reference_alignment_direction_counterexample:
  "register_to_reference_bone example_training_vtk example_training_widget [1, 2] 2
     example_registered
     = Inr [[],
          [\<lparr>points = [10, 12], polys = [[0, 1]]\<rparr>, \<lparr>points = [10, 12], polys = [[0, 1]]\<rparr>],
          [\<lparr>points = [20, 22], polys = [[0, 1]]\<rparr>, \<lparr>points = [121, 123], polys = [[0, 1]]\<rparr>]]
   \<and> vtkTransformPolyDataFilter
        (vtkIterativeClosestPointTransform example_training_vtk (icp example_training_widget)
           (example_registered ! 2 ! 0) (example_registered ! 2 ! 1))
        (example_registered ! 1 ! 1)
      = \<lparr>points = [212, 214], polys = [[0, 1]]\<rparr>"
  by (simp add: register_to_reference_bone_def example_registered_def upt_2 example_defs)

text \<open>
  Claim C1, as amended.  \<open>registration\<close> runs the second loop to its end before the third
  loop starts: in the state \<open>pl2\<close> between the two loops every row of a non-reference label
  already has its final value, and the reference row still has the value the first loop
  left, so that every alignment of the second loop reads reference-bone entries the third
  loop has not replaced.  With the two loops exchanged (\<open>registration_reordered\<close>) the
  reference row ends the same, and a non-reference bone is moved by the transform between
  the registered reference entries instead; the final bone set differs as soon as one of
  these transforms moves its bone differently.
\<close>

theorem reference_bone_registered_last:
  assumes "distinct ls"
    and "\<forall>l\<in>set ls. 0 \<le> l \<and> l \<le> max_bone_label \<and> nat l < length pl \<and> length (pl ! nat l) = n"
    and "0 < n" and "ref_label w \<in> set ls"
  shows "\<exists>refs pl1 pl2 pl3 pl3'.
           reference_shapes ls max_bone_label pl = Inr refs \<and>
           register_reference_shapes lib w ls n refs pl = Inr pl1 \<and>
           register_to_reference_bone lib w ls n pl1 = Inr pl2 \<and>
           register_reference_bone lib w n pl2 = Inr pl3 \<and>
           registration lib w ls max_bone_label n pl = Inr pl3 \<and>
           registration_reordered lib w ls max_bone_label n pl = Inr pl3' \<and>
           pl2 ! nat (ref_label w) = pl1 ! nat (ref_label w) \<and>
           (\<forall>l\<in>set ls. l \<noteq> ref_label w \<longrightarrow>
              pl3 ! nat l = pl2 ! nat l \<and>
              (\<forall>i<n. pl2 ! nat l ! i =
                 vtkTransformPolyDataFilter
                   (vtkIterativeClosestPointTransform lib (icp w)
                      (pl1 ! nat (ref_label w) ! i) (pl1 ! nat (ref_label w) ! 0))
                   (pl1 ! nat l ! i)) \<and>
              (\<forall>i<n. pl3' ! nat l ! i =
                 vtkTransformPolyDataFilter
                   (vtkIterativeClosestPointTransform lib (icp w)
                      (pl3 ! nat (ref_label w) ! i) (pl3 ! nat (ref_label w) ! 0))
                   (pl1 ! nat l ! i))) \<and>
           pl3' ! nat (ref_label w) = pl3 ! nat (ref_label w) \<and>
           ((\<exists>l\<in>set ls. l \<noteq> ref_label w \<and>
               (\<exists>i<n. vtkTransformPolyDataFilter
                         (vtkIterativeClosestPointTransform lib (icp w)
                            (pl3 ! nat (ref_label w) ! i) (pl3 ! nat (ref_label w) ! 0))
                         (pl1 ! nat l ! i)
                     \<noteq> vtkTransformPolyDataFilter
                         (vtkIterativeClosestPointTransform lib (icp w)
                            (pl1 ! nat (ref_label w) ! i) (pl1 ! nat (ref_label w) ! 0))
                         (pl1 ! nat l ! i)))
            \<longrightarrow> pl3' \<noteq> pl3)"
proof -
  from registration_stages [OF assms, of lib]
  obtain refs pl1 pl2 pl3 pl3' where a:
    "reference_shapes ls max_bone_label pl = Inr refs"
    "register_reference_shapes lib w ls n refs pl = Inr pl1"
    "register_to_reference_bone lib w ls n pl1 = Inr pl2"
    "register_reference_bone lib w n pl2 = Inr pl3"
    "registration lib w ls max_bone_label n pl = Inr pl3"
    "registration_reordered lib w ls max_bone_label n pl = Inr pl3'"
    "pl2 ! nat (ref_label w) = pl1 ! nat (ref_label w)"
    and b: "\<forall>l\<in>set ls. l \<noteq> ref_label w \<longrightarrow>
              pl3 ! nat l = pl2 ! nat l \<and>
              (\<forall>i<n. pl2 ! nat l ! i =
                 IterativeClosestPoint lib w (pl1 ! nat (ref_label w) ! i)
                   (pl1 ! nat (ref_label w) ! 0) (Some (pl1 ! nat l ! i))) \<and>
              (\<forall>i<n. pl3' ! nat l ! i =
                 IterativeClosestPoint lib w (pl3 ! nat (ref_label w) ! i)
                   (pl3 ! nat (ref_label w) ! 0) (Some (pl1 ! nat l ! i)))"
    and c: "pl3' ! nat (ref_label w) = pl3 ! nat (ref_label w)"
    by blast
  let ?T = "\<lambda>p l i. vtkTransformPolyDataFilter
                   (vtkIterativeClosestPointTransform lib (icp w)
                      (p ! nat (ref_label w) ! i) (p ! nat (ref_label w) ! 0))
                   (pl1 ! nat l ! i)"
  have b': "\<forall>l\<in>set ls. l \<noteq> ref_label w \<longrightarrow>
              pl3 ! nat l = pl2 ! nat l \<and>
              (\<forall>i<n. pl2 ! nat l ! i = ?T pl1 l i) \<and> (\<forall>i<n. pl3' ! nat l ! i = ?T pl3 l i)"
    using b by (simp add: IterativeClosestPoint_Some)
  have d: "(\<exists>l\<in>set ls. l \<noteq> ref_label w \<and> (\<exists>i<n. ?T pl3 l i \<noteq> ?T pl1 l i)) \<longrightarrow> pl3' \<noteq> pl3"
  proof (intro impI notI)
    assume "\<exists>l\<in>set ls. l \<noteq> ref_label w \<and> (\<exists>i<n. ?T pl3 l i \<noteq> ?T pl1 l i)" and eq: "pl3' = pl3"
    then obtain l i where l: "l \<in> set ls" "l \<noteq> ref_label w" "i < n"
      and ne: "?T pl3 l i \<noteq> ?T pl1 l i"
      by blast
    have "pl3' ! nat l ! i = ?T pl3 l i" using b' l by blast
    moreover have "pl3 ! nat l ! i = ?T pl1 l i" using b' l by metis
    ultimately show False using ne eq by simp
  qed
  show ?thesis
    using a b' c d by blast
qed

lemma example_extracted_wf:
  "distinct [1, 2 :: int]"
  "\<forall>l\<in>set [1, 2 :: int]. 0 \<le> l \<and> l \<le> 2 \<and> nat l < length example_extracted
      \<and> length (example_extracted ! nat l) = 2"
  "0 < (2 :: nat)"
  "ref_label example_training_widget \<in> set [1, 2 :: int]"
  by (simp_all add: example_extracted_def example_training_widget_def)

lemma example_reference_shapes:
  "reference_shapes [1, 2] 2 example_extracted
     = Inr [[], [\<lparr>points = [10, 12], polys = [[0, 1]]\<rparr>],
                [\<lparr>points = [20, 22], polys = [[0, 1]]\<rparr>]]"
  by (simp add: reference_shapes_def example_extracted_def example_defs
      numeral_3_eq_3 numeral_2_eq_2)

lemma example_stages:
  "register_reference_shapes example_training_vtk example_training_widget [1, 2] 2
     [[], [\<lparr>points = [10, 12], polys = [[0, 1]]\<rparr>], [\<lparr>points = [20, 22], polys = [[0, 1]]\<rparr>]]
     example_extracted = Inr example_registered"
  "registration example_training_vtk example_training_widget [1, 2] 2 2 example_extracted
     = Inr [[],
          [\<lparr>points = [10, 12], polys = [[0, 1]]\<rparr>, \<lparr>points = [10, 12], polys = [[0, 1]]\<rparr>],
          [\<lparr>points = [20, 22], polys = [[0, 1]]\<rparr>, \<lparr>points = [20, 22], polys = [[0, 1]]\<rparr>]]"
  "registration_reordered example_training_vtk example_training_widget [1, 2] 2 2
     example_extracted
     = Inr [[],
          [\<lparr>points = [10, 12], polys = [[0, 1]]\<rparr>, \<lparr>points = [111, 113], polys = [[0, 1]]\<rparr>],
          [\<lparr>points = [20, 22], polys = [[0, 1]]\<rparr>, \<lparr>points = [20, 22], polys = [[0, 1]]\<rparr>]]"
  by (simp_all add: registration_def registration_reordered_def reference_shapes_def
      register_reference_shapes_def register_to_reference_bone_def register_reference_bone_def
      example_extracted_def example_registered_def upt_2 example_defs)

theorem reference_bone_registered_last_witness:
  "registration_reordered example_training_vtk example_training_widget [1, 2] 2 2
     example_extracted
   \<noteq> registration example_training_vtk example_training_widget [1, 2] 2 2 example_extracted"
proof -
  let ?w = example_training_widget
  let ?lib = example_training_vtk
  from reference_bone_registered_last [OF example_extracted_wf, of ?lib]
  obtain refs pl1 pl2 pl3 pl3' where a:
    "reference_shapes [1, 2] 2 example_extracted = Inr refs"
    "register_reference_shapes ?lib ?w [1, 2] 2 refs example_extracted = Inr pl1"
    "registration ?lib ?w [1, 2] 2 2 example_extracted = Inr pl3"
    "registration_reordered ?lib ?w [1, 2] 2 2 example_extracted = Inr pl3'"
    and d: "(\<exists>l\<in>set [1, 2 :: int]. l \<noteq> ref_label ?w \<and>
               (\<exists>i<2. vtkTransformPolyDataFilter
                         (vtkIterativeClosestPointTransform ?lib (icp ?w)
                            (pl3 ! nat (ref_label ?w) ! i) (pl3 ! nat (ref_label ?w) ! 0))
                         (pl1 ! nat l ! i)
                     \<noteq> vtkTransformPolyDataFilter
                         (vtkIterativeClosestPointTransform ?lib (icp ?w)
                            (pl1 ! nat (ref_label ?w) ! i) (pl1 ! nat (ref_label ?w) ! 0))
                         (pl1 ! nat l ! i)))
            \<longrightarrow> pl3' \<noteq> pl3"
    by blast
  have refs: "refs = [[], [\<lparr>points = [10, 12], polys = [[0, 1]]\<rparr>],
                          [\<lparr>points = [20, 22], polys = [[0, 1]]\<rparr>]]"
    using a(1) unfolding example_reference_shapes by simp
  have pl1: "pl1 = example_registered"
    using a(2) unfolding refs example_stages(1) by simp
  have pl3: "pl3 = [[],
          [\<lparr>points = [10, 12], polys = [[0, 1]]\<rparr>, \<lparr>points = [10, 12], polys = [[0, 1]]\<rparr>],
          [\<lparr>points = [20, 22], polys = [[0, 1]]\<rparr>, \<lparr>points = [20, 22], polys = [[0, 1]]\<rparr>]]"
    using a(3) unfolding example_stages(2) by simp
  have ref: "ref_label ?w = 2" by (simp add: example_training_widget_def)
  have "vtkTransformPolyDataFilter
          (vtkIterativeClosestPointTransform ?lib (icp ?w)
             (pl3 ! nat (ref_label ?w) ! 1) (pl3 ! nat (ref_label ?w) ! 0))
          (pl1 ! nat 1 ! 1)
        \<noteq> vtkTransformPolyDataFilter
          (vtkIterativeClosestPointTransform ?lib (icp ?w)
             (pl1 ! nat (ref_label ?w) ! 1) (pl1 ! nat (ref_label ?w) ! 0))
          (pl1 ! nat 1 ! 1)"
    by (simp add: pl1 pl3 ref example_registered_def example_icp centroid_def
        vtkTransformPolyDataFilter_def numeral_2_eq_2)
  then have "\<exists>l\<in>set [1, 2 :: int]. l \<noteq> ref_label ?w \<and>
               (\<exists>i<2. vtkTransformPolyDataFilter
                         (vtkIterativeClosestPointTransform ?lib (icp ?w)
                            (pl3 ! nat (ref_label ?w) ! i) (pl3 ! nat (ref_label ?w) ! 0))
                         (pl1 ! nat l ! i)
                     \<noteq> vtkTransformPolyDataFilter
                         (vtkIterativeClosestPointTransform ?lib (icp ?w)
                            (pl1 ! nat (ref_label ?w) ! i) (pl1 ! nat (ref_label ?w) ! 0))
                         (pl1 ! nat l ! i))"
    using ref by (intro bexI [of _ 1] conjI exI [of _ 1]) simp_all
  with d have "pl3' \<noteq> pl3" by blast
  then show ?thesis using a(3,4) by simp
qed

text \<open>
  The claim C1 as stated (for every run, exchanging the loops changes the final point set)
  fails on a run whose only label is the reference label: both orders give the same bone
  set.
\<close>

theorem reordering_without_effect_counterexample:
  "registration example_training_vtk example_training_widget [2] 2 2 example_extracted
     = Inr [[],
          [\<lparr>points = [10, 12], polys = [[0, 1]]\<rparr>,
           \<lparr>points = [110, 112, 114], polys = [[0, 1, 2]]\<rparr>],
          [\<lparr>points = [20, 22], polys = [[0, 1]]\<rparr>, \<lparr>points = [20, 22], polys = [[0, 1]]\<rparr>]]
   \<and> registration_reordered example_training_vtk example_training_widget [2] 2 2
       example_extracted
     = Inr [[],
          [\<lparr>points = [10, 12], polys = [[0, 1]]\<rparr>,
           \<lparr>points = [110, 112, 114], polys = [[0, 1, 2]]\<rparr>],
          [\<lparr>points = [20, 22], polys = [[0, 1]]\<rparr>, \<lparr>points = [20, 22], polys = [[0, 1]]\<rparr>]]"
  by (simp add: registration_def registration_reordered_def reference_shapes_def
      register_reference_shapes_def register_to_reference_bone_def register_reference_bone_def
      example_extracted_def upt_2 example_defs)

text \<open>
  Claim C5, as amended.  \<open>IterativeClosestPoint\<close> has no check of its input and raises
  nothing: for every source, target and reference it returns the reference (the source when
  there is none) moved by whatever transform the VTK engine yields for source and target; and
  the registration of a bone set whose rows have one entry per subject always completes.
\<close>

theorem registration_without_geometry_check:
  "IterativeClosestPoint lib w source target reference
     = vtkTransformPolyDataFilter
         (vtkIterativeClosestPointTransform lib (icp w) source target)
         (case reference of None \<Rightarrow> source | Some r \<Rightarrow> r)
   \<and> (distinct ls \<and>
       (\<forall>l\<in>set ls. 0 \<le> l \<and> l \<le> max_bone_label \<and> nat l < length pl
                     \<and> length (pl ! nat l) = n) \<and>
       0 < n \<and> ref_label w \<in> set ls
       \<longrightarrow> (\<exists>pl'. registration lib w ls max_bone_label n pl = Inr pl'))"
proof (intro conjI impI)
  show "IterativeClosestPoint lib w source target reference
     = vtkTransformPolyDataFilter
         (vtkIterativeClosestPointTransform lib (icp w) source target)
         (case reference of None \<Rightarrow> source | Some r \<Rightarrow> r)"
    by (cases reference) (simp_all add: IterativeClosestPoint_None IterativeClosestPoint_Some)
next
  assume a: "distinct ls \<and>
       (\<forall>l\<in>set ls. 0 \<le> l \<and> l \<le> max_bone_label \<and> nat l < length pl
                     \<and> length (pl ! nat l) = n) \<and>
       0 < n \<and> ref_label w \<in> set ls"
  then have "distinct ls"
    and "\<forall>l\<in>set ls. 0 \<le> l \<and> l \<le> max_bone_label \<and> nat l < length pl \<and> length (pl ! nat l) = n"
    and "0 < n" and "ref_label w \<in> set ls"
    by blast+
  from registration_stages [OF this, of lib]
  show "\<exists>pl'. registration lib w ls max_bone_label n pl = Inr pl'" by blast
qed

theorem registration_without_geometry_check_witness:
  "\<exists>pl'. registration example_training_vtk example_training_widget [1, 2] 2 2
            example_extracted = Inr pl'"
proof -
  have "distinct [1, 2 :: int] \<and>
       (\<forall>l\<in>set [1, 2 :: int]. 0 \<le> l \<and> l \<le> 2 \<and> nat l < length example_extracted
                     \<and> length (example_extracted ! nat l) = 2) \<and>
       0 < (2 :: nat) \<and> ref_label example_training_widget \<in> set [1, 2 :: int]"
    using example_extracted_wf by blast
  with registration_without_geometry_check
         [of example_training_vtk example_training_widget _ _ _ "[1, 2]" 2 example_extracted 2]
  show ?thesis by blast
qed

text \<open>
  The claim C5 as stated (degenerate input fails with an error) does not hold of the code:
  the registration of surfaces with two or three points completes, and aligning two empty
  surfaces returns the empty surface.
\<close>

theorem degenerate_surfaces_counterexample:
  "registration example_training_vtk example_training_widget [1, 2] 2 2 example_extracted
     = Inr [[],
          [\<lparr>points = [10, 12], polys = [[0, 1]]\<rparr>, \<lparr>points = [10, 12], polys = [[0, 1]]\<rparr>],
          [\<lparr>points = [20, 22], polys = [[0, 1]]\<rparr>, \<lparr>points = [20, 22], polys = [[0, 1]]\<rparr>]]
   \<and> IterativeClosestPoint example_training_vtk example_training_widget
        \<lparr>points = [], polys = []\<rparr> \<lparr>points = [], polys = []\<rparr> None
     = \<lparr>points = [], polys = []\<rparr>"
  by (simp add: registration_def reference_shapes_def
      register_reference_shapes_def register_to_reference_bone_def register_reference_bone_def
      example_extracted_def upt_2 example_defs)

lemmas sort_defs = list_sort_def alphanum_key_def re_split_digits_def is_digit_def tryint_def
  py_int_def strip_def is_space_def decimal_def digit_value_def

lemma example_sorted:
  "list_sort alphanum_key [''s10.nii'', ''s2.nii''] = [''s2.nii'', ''s10.nii'']"
  "list_sort alphanum_key [''s10.nii'', ''s2.nii'', ''notes.txt'']
     = [''notes.txt'', ''s2.nii'', ''s10.nii'']"
  by (simp_all add: sort_defs)

text \<open>The concrete instance with the remove-reference-bone option on, once with the default
  labels (text field \<^verbatim>\<open>-1\<close>) and once with the labels \<^verbatim>\<open>1,2\<close> typed in.\<close>

definition default_labels_widget :: training_widget where
  "default_labels_widget =
     example_training_widget\<lparr>lineedit_labels := [- 1], Remove_Ref_Bone := True\<rparr>"

definition explicit_labels_widget :: training_widget where
  "explicit_labels_widget = example_training_widget\<lparr>Remove_Ref_Bone := True\<rparr>"

lemma example_load_images:
  assumes "num_files w = - 1" and "\<not> flip_image_vertically w" and "\<not> flip_image_horizontally w"
    and "segmentation_directory w = ''seg''"
  shows "load_images example_training_vtk w [''s2.nii'', ''s10.nii'']
           (file_list w [''s2.nii'', ''s10.nii'']) = example_images"
  using assms
  by (simp add: file_list_def upt_2 last3_def path_join_def flip_image_def example_images_def
      example_training_vtk_def)

lemma example_extract_surfaces:
  "extract_surfaces example_training_vtk w [1, 2] example_images (replicate (nat (2 + 1)) [])
     = Inr example_extracted"
  by (simp add: extract_surfaces_def Extract_Surface_def Smooth_Surface_def example_images_def
      example_training_vtk_def example_segmentation_def append2_def py_index_def Let_def
      numeral_3_eq_3 example_extracted_def)

lemma example_registration:
  assumes "ref_label w = 2"
  shows "registration example_training_vtk w [1, 2] 2 2 example_extracted
     = Inr [[],
          [\<lparr>points = [10, 12], polys = [[0, 1]]\<rparr>, \<lparr>points = [10, 12], polys = [[0, 1]]\<rparr>],
          [\<lparr>points = [20, 22], polys = [[0, 1]]\<rparr>, \<lparr>points = [20, 22], polys = [[0, 1]]\<rparr>]]"
  using assms
  by (simp add: registration_def reference_shapes_def
      register_reference_shapes_def register_to_reference_bone_def register_reference_bone_def
      example_extracted_def upt_2 example_training_vtk_def
      centroid_icp_def centroid_def IterativeClosestPoint_def vtkTransformPolyDataFilter_def
      get2_def set2_def append2_def getitem_def setitem_def py_index_def Let_def)

lemma example_save_output:
  assumes "\<not> Save_Registered_Bones_Separately w"
  shows "save_output w [''s2.nii'', ''s10.nii''] [1, 2] 2
      [[],
       [\<lparr>points = [10, 12], polys = [[0, 1]]\<rparr>, \<lparr>points = [10, 12], polys = [[0, 1]]\<rparr>],
       [\<lparr>points = [20, 22], polys = [[0, 1]]\<rparr>, \<lparr>points = [20, 22 :: int], polys = [[0, 1]]\<rparr>]]
    = Inr [(Combined ''s2'', \<lparr>points = [10, 12, 20, 22], polys = [[0, 1], [2, 3]]\<rparr>),
           (Combined ''s10'', \<lparr>points = [10, 12, 20, 22], polys = [[0, 1], [2, 3]]\<rparr>)]"
    and "save_output w [''s2.nii'', ''s10.nii''] [1] 2
      [[],
       [\<lparr>points = [10, 12], polys = [[0, 1]]\<rparr>, \<lparr>points = [10, 12], polys = [[0, 1]]\<rparr>],
       [\<lparr>points = [20, 22], polys = [[0, 1]]\<rparr>, \<lparr>points = [20, 22 :: int], polys = [[0, 1]]\<rparr>]]
    = Inr [(Combined ''s2'', \<lparr>points = [10, 12], polys = [[0, 1]]\<rparr>),
           (Combined ''s10'', \<lparr>points = [10, 12], polys = [[0, 1]]\<rparr>)]"
  using assms
  by (simp_all add: save_output_def Combine_Surfaces_def vtkAppendPolyData_def upt_2
      get2_def getitem_def py_index_def)

lemma upto_1_2: "[1..3 - 1] = [1, 2 :: int]"
  by (simp add: upto_rec1)

lemma example_labels:
  "bone_labels default_labels_widget = Inr (PyRange 1 3)"
  "bone_labels explicit_labels_widget = Inr (NdArray [1, 2])"
  "labels_list (PyRange 1 3) = [1, 2]"
  "labels_list (NdArray [1, 2]) = [1, 2]"
  "labels_list (NdArray [1]) = [1]"
  "np_max [1, 2] = Inr 2"
  "exported_labels default_labels_widget (PyRange 1 3) = NdArray [1, 2]"
  "exported_labels explicit_labels_widget (NdArray [1, 2]) = NdArray [1]"
  by (simp_all add: bone_labels_def default_labels_widget_def explicit_labels_widget_def
      example_training_widget_def getitem_def py_index_def int_of_float_def labels_list_def
      np_max_def exported_labels_def argwhere_eq_def np_delete_def upt_2 upto_1_2
      del: diff_numeral_simps) (simp_all add: upto_rec1)

lemma example_widget_fields:
  "num_files default_labels_widget = - 1" "num_files explicit_labels_widget = - 1"
  "\<not> flip_image_vertically default_labels_widget"
  "\<not> flip_image_vertically explicit_labels_widget"
  "\<not> flip_image_horizontally default_labels_widget"
  "\<not> flip_image_horizontally explicit_labels_widget"
  "segmentation_directory default_labels_widget = ''seg''"
  "segmentation_directory explicit_labels_widget = ''seg''"
  "ref_label default_labels_widget = 2" "ref_label explicit_labels_widget = 2"
  "\<not> Save_Registered_Bones_Separately default_labels_widget"
  "\<not> Save_Registered_Bones_Separately explicit_labels_widget"
  "\<not> Save_Extracted_Bones_Separately default_labels_widget"
  "\<not> Save_Extracted_Bones_Separately explicit_labels_widget"
  "\<not> Skip_Registration default_labels_widget"
  "\<not> Skip_Registration explicit_labels_widget"
  "Remove_Ref_Bone default_labels_widget" "Remove_Ref_Bone explicit_labels_widget"
  by (simp_all add: default_labels_widget_def explicit_labels_widget_def
      example_training_widget_def)

lemma example_images_length: "length example_images = 2"
  by (simp add: example_images_def)

lemmas example_stages_default =
  example_load_images [OF example_widget_fields(1,3,5,7)]
  example_registration [OF example_widget_fields(9)]
  example_save_output [OF example_widget_fields(11)]

lemmas example_stages_explicit =
  example_load_images [OF example_widget_fields(2,4,6,8)]
  example_registration [OF example_widget_fields(10)]
  example_save_output [OF example_widget_fields(12)]

lemma example_run_default:
  "Create_Training_Data_onCompute example_training_vtk default_labels_widget
     [''s10.nii'', ''s2.nii'']
   = Inr [(Combined ''s2'', \<lparr>points = [10, 12, 20, 22], polys = [[0, 1], [2, 3]]\<rparr>),
          (Combined ''s10'', \<lparr>points = [10, 12, 20, 22], polys = [[0, 1], [2, 3]]\<rparr>)]"
  by (simp only: Create_Training_Data_onCompute_def example_labels example_sorted
      example_stages_default example_widget_fields example_images_length
      example_extract_surfaces Let_def bindE_simps if_False if_True append_Nil)

lemma example_run_explicit:
  "Create_Training_Data_onCompute example_training_vtk explicit_labels_widget
     [''s10.nii'', ''s2.nii'']
   = Inr [(Combined ''s2'', \<lparr>points = [10, 12], polys = [[0, 1]]\<rparr>),
          (Combined ''s10'', \<lparr>points = [10, 12], polys = [[0, 1]]\<rparr>)]"
  by (simp only: Create_Training_Data_onCompute_def example_labels example_sorted
      example_stages_explicit example_widget_fields example_images_length
      example_extract_surfaces Let_def bindE_simps if_False if_True append_Nil)











text \<open>With labels given as an array, all entries equal to the reference label are
  deleted.\<close>

lemma np_delete_argwhere:
  "np_delete xs (filter (\<lambda>k. xs ! k = v) [0..<length xs]) = filter (\<lambda>x. x \<noteq> v) xs"
proof -
  have "filter (\<lambda>k. k \<notin> set (filter (\<lambda>k. xs ! k = v) [0..<length xs])) [0..<length xs]
          = filter (\<lambda>k. xs ! k \<noteq> v) [0..<length xs]"
    by (rule filter_cong) auto
  then have "np_delete xs (filter (\<lambda>k. xs ! k = v) [0..<length xs])
          = map (\<lambda>k. xs ! k) (filter (\<lambda>k. xs ! k \<noteq> v) [0..<length xs])"
    by (simp add: np_delete_def)
  also have "\<dots> = filter (\<lambda>x. x \<noteq> v) (map (\<lambda>k. xs ! k) [0..<length xs])"
    by (simp add: filter_map comp_def)
  also have "map (\<lambda>k. xs ! k) [0..<length xs] = xs" by (rule map_nth)
  finally show ?thesis .
qed

lemma explicit_labels_drop_reference:
  "Remove_Ref_Bone w \<Longrightarrow>
     labels_list (exported_labels w (NdArray xs)) = filter (\<lambda>x. x \<noteq> ref_label w) xs"
  by (simp add: exported_labels_def labels_list_def argwhere_eq_def np_delete_argwhere)

lemma default_labels_keep_reference:
  "Remove_Ref_Bone w \<Longrightarrow> labels_list (exported_labels w (PyRange lo hi)) = [lo..hi - 1]"
proof -
  have "map (\<lambda>k. [lo..hi - 1] ! k) [0..<length [lo..hi - 1]] = [lo..hi - 1]" by (rule map_nth)
  then show "Remove_Ref_Bone w \<Longrightarrow> ?thesis"
    by (simp add: exported_labels_def labels_list_def argwhere_eq_def np_delete_def)
qed

text \<open>
  Claim C9 at the default labels.  With the remove-reference-bone option on, the text field at
  \<^verbatim>\<open>-1\<close> (labels 1 to 2 from the slider range) and reference label 2, the comparison
  \<^verbatim>\<open>self.bone_labels == self.ref_label\<close> is between a \<^verbatim>\<open>range\<close> and a number, nothing is
  deleted, and both combined surfaces contain the points \<open>20, 22\<close> and the cell of the
  reference bone.  With the same labels typed in as \<^verbatim>\<open>1,2\<close> the reference bone is dropped.
\<close>

theorem reference_bone_kept_with_default_labels:
  "Remove_Ref_Bone default_labels_widget
   \<and> ref_label default_labels_widget = 2
   \<and> bone_labels default_labels_widget = Inr (PyRange 1 3)
   \<and> labels_list (exported_labels default_labels_widget (PyRange 1 3)) = [1, 2]
   \<and> Create_Training_Data_onCompute example_training_vtk default_labels_widget
        [''s10.nii'', ''s2.nii'']
      = Inr [(Combined ''s2'', \<lparr>points = [10, 12, 20, 22], polys = [[0, 1], [2, 3]]\<rparr>),
             (Combined ''s10'', \<lparr>points = [10, 12, 20, 22], polys = [[0, 1], [2, 3]]\<rparr>)]
   \<and> labels_list (exported_labels explicit_labels_widget (NdArray [1, 2])) = [1]
   \<and> Create_Training_Data_onCompute example_training_vtk explicit_labels_widget
        [''s10.nii'', ''s2.nii'']
      = Inr [(Combined ''s2'', \<lparr>points = [10, 12], polys = [[0, 1]]\<rparr>),
             (Combined ''s10'', \<lparr>points = [10, 12], polys = [[0, 1]]\<rparr>)]"
  by (simp only: example_run_default example_run_explicit example_labels example_widget_fields
      simp_thms)

section \<open>The PCA widget: loading, model building, fitting\<close>

text \<open>A numpy array of floats, one- or two-dimensional (the rows in order), with the four
  numpy calls of \<^verbatim>\<open>Fit_Polydata\<close>: \<^verbatim>\<open>np.zeros(n)\<close>, \<^verbatim>\<open>np.vstack((a, row))\<close>,
  \<^verbatim>\<open>np.delete(a, 0, axis=0)\<close> and the rows that \<^verbatim>\<open>np.savetxt\<close> writes (one line per element for a
  one-dimensional array).\<close>

datatype ndarray = A1 "real list" | A2 "real list list"

definition np_zeros :: "int \<Rightarrow> error + ndarray" where
  "np_zeros n = (if n < 0 then Inl ValueError else Inr (A1 (replicate (nat n) 0)))"

definition np_vstack :: "ndarray \<Rightarrow> real list \<Rightarrow> error + ndarray" where
  "np_vstack a row =
     (case a of
        A1 xs \<Rightarrow> if length xs = length row then Inr (A2 [xs, row]) else Inl ValueError
      | A2 rows \<Rightarrow> if list_all (\<lambda>r. length r = length row) rows
                   then Inr (A2 (rows @ [row])) else Inl ValueError)"

definition np_delete_first :: "ndarray \<Rightarrow> error + ndarray" where
  "np_delete_first a =
     (case a of
        A1 [] \<Rightarrow> Inl IndexError
      | A1 (x # xs) \<Rightarrow> Inr (A1 xs)
      | A2 [] \<Rightarrow> Inl IndexError
      | A2 (r # rs) \<Rightarrow> Inr (A2 rs))"

definition np_savetxt :: "ndarray \<Rightarrow> real list list" where
  "np_savetxt a = (case a of A1 xs \<Rightarrow> map (\<lambda>x. [x]) xs | A2 rows \<Rightarrow> rows)"

text \<open>The directory listing and the VTK classes the PCA widget drives, over a surface type
  \<open>'m\<close> and a model type \<open>'pm\<close>.  \<open>GetShapeParameters model shape n k\<close> is entry \<open>k\<close> of the
  array that \<^verbatim>\<open>GetShapeParameters(shape, b, n)\<close> fills with \<open>n\<close> values.\<close>

record ('m, 'pm) pca_vtk =
  listdir :: "string \<Rightarrow> string list"
  vtkSTLReader :: "string \<Rightarrow> 'm"
  vtkPLYReader :: "string \<Rightarrow> 'm"
  GetNumberOfPoints :: "'m \<Rightarrow> nat"
  vtkPCAAnalysisFilter :: "'m list \<Rightarrow> 'pm"
  GetShapeParameters :: "'pm \<Rightarrow> 'm \<Rightarrow> nat \<Rightarrow> nat \<Rightarrow> real"
  GetParameterisedShape :: "'pm \<Rightarrow> real list \<Rightarrow> 'm \<Rightarrow> 'm"

text \<open>The attributes of the widget that the modelled methods read and write; an attribute
  initialised to \<^verbatim>\<open>[]\<close> is \<open>None\<close>.  The two text files written by \<^verbatim>\<open>Fit_Polydata\<close> are part of
  the state: the coefficient table as its rows, \<^verbatim>\<open>Files_Fitted.txt\<close> as its lines.\<close>

record ('m, 'pm) PCA_KinematicsWidget =
  NumEVs :: int
  num_tuples :: int
  pca_model :: "'pm option"
  polydata_list :: "'m list"
  files :: "string list"
  New_Folder_Selected :: bool
  New_Transform_Selected :: bool
  Already_Running :: bool
  directory_path :: "string option"
  Directory_Input_Surfaces_Fitting :: "string option"
  fitting_output_directory_path :: "string option"
  fitted_coefficients :: "ndarray option"
  output_shape :: "'m option"
  EV_sliders :: "real list"
  Fitted_Model_Coefficients_txt :: "real list list option"
  Files_Fitted_txt :: "string list option"

text \<open>\<^verbatim>\<open>Load_Surface_From_Directory\<close>: the sorted listing is read file by file, an \<^verbatim>\<open>stl\<close> or
  \<^verbatim>\<open>ply\<close> file is appended to \<^verbatim>\<open>self.files\<close> and its surface to the list, any other file is
  skipped; then \<^verbatim>\<open>ValueError\<close> is raised unless the number of distinct point counts is one.
  The result is the state together with the raised error or the returned pair (the block set
  holds the same surfaces in the same order).\<close>

fun load_loop ::
  "('m, 'pm) pca_vtk \<Rightarrow> string \<Rightarrow> string list \<Rightarrow> string list \<Rightarrow> 'm list \<Rightarrow> string list \<times> 'm list"
where
  "load_loop lib d [] names pl = (names, pl)"
| "load_loop lib d (f # fs) names pl =
     (if last3 f = ''stl''
      then load_loop lib d fs (names @ [f]) (pl @ [vtkSTLReader lib (path_join d f)])
      else if last3 f = ''ply''
      then load_loop lib d fs (names @ [f]) (pl @ [vtkPLYReader lib (path_join d f)])
      else load_loop lib d fs names pl)"

definition Load_Surface_From_Directory ::
  "('m, 'pm) pca_vtk \<Rightarrow> ('m, 'pm) PCA_KinematicsWidget \<Rightarrow> string
     \<Rightarrow> ('m, 'pm) PCA_KinematicsWidget \<times> (error + 'm list \<times> 'm list)"
where
  "Load_Surface_From_Directory lib s d =
     (let fs = list_sort alphanum_key (listdir lib d);
          s = s\<lparr>num_tuples := NumEVs s\<rparr>;
          (names, pl) = load_loop lib d fs [] [];
          s = s\<lparr>files := names\<rparr>;
          polydata_points = map (GetNumberOfPoints lib) pl
      in if length (remdups polydata_points) \<noteq> 1 then (s, Inl ValueError)
         else (s, Inr (pl, pl)))"

text \<open>\<^verbatim>\<open>onCompute\<close> of the PCA widget: the model is built when there is none or a new folder or
  transform was selected; \<open>apply_coefficients\<close> is the rest of the method (the slider values
  applied to the output shape, and the running flag reset).\<close>

definition apply_coefficients ::
  "('m, 'pm) pca_vtk \<Rightarrow> ('m, 'pm) PCA_KinematicsWidget \<Rightarrow> ('m, 'pm) PCA_KinematicsWidget"
where
  "apply_coefficients lib s =
     (case (pca_model s, output_shape s) of
        (Some m, Some sh) \<Rightarrow>
          s\<lparr>output_shape := Some (GetParameterisedShape lib m (EV_sliders s) sh),
            Already_Running := False\<rparr>
      | _ \<Rightarrow> s\<lparr>Already_Running := False\<rparr>)"

definition PCA_Kinematics_onCompute ::
  "('m, 'pm) pca_vtk \<Rightarrow> ('m, 'pm) PCA_KinematicsWidget
     \<Rightarrow> ('m, 'pm) PCA_KinematicsWidget \<times> error option"
where
  "PCA_Kinematics_onCompute lib s =
     (case directory_path s of
        None \<Rightarrow> (s, Some ValueError)
      | Some d \<Rightarrow>
          if Already_Running s then (s, None)
          else
            let s = s\<lparr>Already_Running := True\<rparr> in
            if pca_model s = None \<or> New_Folder_Selected s \<or> New_Transform_Selected s
            then
              (let s = s\<lparr>New_Folder_Selected := False, New_Transform_Selected := False\<rparr>;
                   (s, r) = Load_Surface_From_Directory lib s d
               in case r of
                    Inl e \<Rightarrow> (s, Some e)
                  | Inr (pl, block_set) \<Rightarrow>
                      let s = s\<lparr>polydata_list := pl\<rparr>;
                          s = s\<lparr>NumEVs := int (length (polydata_list s)) - 1\<rparr>;
                          s = s\<lparr>pca_model := Some (vtkPCAAnalysisFilter lib block_set)\<rparr>;
                          s = s\<lparr>output_shape :=
                                 (case polydata_list s of [] \<Rightarrow> None | p # _ \<Rightarrow> Some p)\<rparr>
                      in (apply_coefficients lib s, None))
            else (apply_coefficients lib s, None))"

text \<open>\<^verbatim>\<open>Fit_Polydata\<close> and \<^verbatim>\<open>onPCAFittingButtonClicked\<close>.\<close>

definition fitted_params :: "('m, 'pm) pca_vtk \<Rightarrow> 'pm \<Rightarrow> nat \<Rightarrow> 'm \<Rightarrow> real list" where
  "fitted_params lib model n p = map (GetShapeParameters lib model p n) [0..<n]"

fun fit_loop ::
  "('m, 'pm) pca_vtk \<Rightarrow> string list \<Rightarrow> 'pm \<Rightarrow> 'm list \<Rightarrow> nat \<Rightarrow> nat list \<Rightarrow> ndarray
     \<Rightarrow> error + ndarray"
where
  "fit_loop lib fnames model pl n [] coefficients = Inr coefficients"
| "fit_loop lib fnames model pl n (i # is) coefficients =
     (let new_coeff = fitted_params lib model n (pl ! i)
      in bindE (getitem fnames (int i)) (\<lambda>_.
         bindE (np_vstack coefficients new_coeff) (\<lambda>coefficients.
         fit_loop lib fnames model pl n is coefficients)))"

definition Fit_Polydata ::
  "('m, 'pm) pca_vtk \<Rightarrow> ('m, 'pm) PCA_KinematicsWidget \<Rightarrow> 'pm \<Rightarrow> 'm list \<Rightarrow> int
     \<Rightarrow> ('m, 'pm) PCA_KinematicsWidget \<times> error option"
where
  "Fit_Polydata lib s model pl n =
     (case np_zeros n of
        Inl e \<Rightarrow> (s, Some e)
      | Inr coefficients \<Rightarrow>
          (case fit_loop lib (files s) model pl (nat n) [0..<length pl] coefficients of
             Inl e \<Rightarrow> (s, Some e)
           | Inr coefficients \<Rightarrow>
               let s = s\<lparr>fitted_coefficients := Some coefficients\<rparr> in
               (case np_delete_first coefficients of
                  Inl e \<Rightarrow> (s, Some e)
                | Inr trimmed \<Rightarrow>
                    let s = s\<lparr>fitted_coefficients := Some trimmed\<rparr> in
                    (case np_delete_first coefficients of
                       Inl e \<Rightarrow> (s, Some e)
                     | Inr coefficients \<Rightarrow>
                         let s = s\<lparr>Fitted_Model_Coefficients_txt :=
                                     Some (np_savetxt coefficients)\<rparr>;
                             s = s\<lparr>Files_Fitted_txt := Some (files s)\<rparr>
                         in (s, None)))))"

definition onPCAFittingButtonClicked ::
  "('m, 'pm) pca_vtk \<Rightarrow> ('m, 'pm) PCA_KinematicsWidget
     \<Rightarrow> ('m, 'pm) PCA_KinematicsWidget \<times> error option"
where
  "onPCAFittingButtonClicked lib s =
     (case Directory_Input_Surfaces_Fitting s of
        None \<Rightarrow> (s, Some ValueError)
      | Some d \<Rightarrow>
          (case pca_model s of
             None \<Rightarrow> (s, Some ValueError)
           | Some model \<Rightarrow>
               (case fitting_output_directory_path s of
                  None \<Rightarrow> (s, Some ValueError)
                | Some out \<Rightarrow>
                    (let (s, r) = Load_Surface_From_Directory lib s d
                     in case r of
                          Inl e \<Rightarrow> (s, Some e)
                        | Inr (pl, block_set) \<Rightarrow>
                            let s = s\<lparr>polydata_list := pl\<rparr>
                            in Fit_Polydata lib s model (polydata_list s) (num_tuples s)))))"

text \<open>The files that are loaded, in the order in which they are loaded, and their
  surfaces.\<close>

definition is_surface :: "string \<Rightarrow> bool" where
  "is_surface f \<longleftrightarrow> last3 f = ''stl'' \<or> last3 f = ''ply''"

definition read_surface :: "('m, 'pm) pca_vtk \<Rightarrow> string \<Rightarrow> string \<Rightarrow> 'm" where
  "read_surface lib d f =
     (if last3 f = ''stl'' then vtkSTLReader lib (path_join d f)
      else vtkPLYReader lib (path_join d f))"

definition usable_files :: "('m, 'pm) pca_vtk \<Rightarrow> string \<Rightarrow> string list" where
  "usable_files lib d = filter is_surface (list_sort alphanum_key (listdir lib d))"

lemma load_loop_eq:
  "load_loop lib d fs names pl =
     (names @ filter is_surface fs, pl @ map (read_surface lib d) (filter is_surface fs))"
  by (induction fs arbitrary: names pl) (auto simp: is_surface_def read_surface_def)

lemma Load_Surface_From_Directory_eq:
  "Load_Surface_From_Directory lib s d =
     (s\<lparr>num_tuples := NumEVs s, files := usable_files lib d\<rparr>,
      if length (remdups (map (GetNumberOfPoints lib)
                   (map (read_surface lib d) (usable_files lib d)))) \<noteq> 1
      then Inl ValueError
      else Inr (map (read_surface lib d) (usable_files lib d),
                map (read_surface lib d) (usable_files lib d)))"
  by (simp add: Load_Surface_From_Directory_def load_loop_eq usable_files_def Let_def)

lemma remdups_one_iff:
  "length (remdups xs) = 1 \<longleftrightarrow> xs \<noteq> [] \<and> (\<forall>a\<in>set xs. \<forall>b\<in>set xs. a = b)"
proof -
  have "length (remdups xs) = card (set xs)" by (simp add: length_remdups_card_conv)
  moreover have "card (set xs) = 1 \<longleftrightarrow> xs \<noteq> [] \<and> (\<forall>a\<in>set xs. \<forall>b\<in>set xs. a = b)"
  proof
    assume "card (set xs) = 1"
    then obtain x where "set xs = {x}" using card_1_singletonE by blast
    then show "xs \<noteq> [] \<and> (\<forall>a\<in>set xs. \<forall>b\<in>set xs. a = b)" by auto
  next
    assume a: "xs \<noteq> [] \<and> (\<forall>a\<in>set xs. \<forall>b\<in>set xs. a = b)"
    then obtain x where "x \<in> set xs" by (cases xs) auto
    with a have "set xs = {x}" by auto
    then show "card (set xs) = 1" by simp
  qed
  ultimately show ?thesis by simp
qed

lemma length_fitted_params: "length (fitted_params lib model n p) = n"
  by (simp add: fitted_params_def)

lemma getitem_in_range: "i < length xs \<Longrightarrow> getitem xs (int i) = Inr (xs ! i)"
  by (simp add: getitem_def py_index_def bindE_def)

lemma fit_loop_A2:
  assumes "list_all (\<lambda>r. length r = n) rows" and "\<forall>i\<in>set is. i < length fnames"
  shows "fit_loop lib fnames model pl n is (A2 rows) =
           Inr (A2 (rows @ map (\<lambda>i. fitted_params lib model n (pl ! i)) is))"
  using assms
proof (induction "is" arbitrary: rows)
  case Nil
  then show ?case by simp
next
  case (Cons i "is")
  have "np_vstack (A2 rows) (fitted_params lib model n (pl ! i)) =
          Inr (A2 (rows @ [fitted_params lib model n (pl ! i)]))"
    using Cons.prems(1) by (simp add: np_vstack_def length_fitted_params)
  moreover have "list_all (\<lambda>r. length r = n) (rows @ [fitted_params lib model n (pl ! i)])"
    using Cons.prems(1) by (simp add: length_fitted_params)
  ultimately show ?case
    using Cons.IH [of "rows @ [fitted_params lib model n (pl ! i)]"] Cons.prems(2)
    by (simp add: getitem_in_range bindE_def)
qed

lemma fit_loop_A1:
  assumes "length z = n" and "\<forall>i\<in>set is. i < length fnames" and "is \<noteq> []"
  shows "fit_loop lib fnames model pl n is (A1 z) =
           Inr (A2 (z # map (\<lambda>i. fitted_params lib model n (pl ! i)) is))"
proof -
  obtain i rest where i: "is = i # rest" using assms(3) by (cases "is") auto
  have v: "np_vstack (A1 z) (fitted_params lib model n (pl ! i)) =
          Inr (A2 [z, fitted_params lib model n (pl ! i)])"
    using assms(1) by (simp add: np_vstack_def length_fitted_params)
  have "list_all (\<lambda>r. length r = n) [z, fitted_params lib model n (pl ! i)]"
    using assms(1) by (simp add: length_fitted_params)
  then have "fit_loop lib fnames model pl n rest (A2 [z, fitted_params lib model n (pl ! i)]) =
      Inr (A2 ([z, fitted_params lib model n (pl ! i)]
               @ map (\<lambda>i. fitted_params lib model n (pl ! i)) rest))"
    using fit_loop_A2 assms(2) i by (metis list.set_intros(2))
  then show ?thesis using v assms(2) i by (simp add: getitem_in_range bindE_def)
qed

lemma map_nth_upt: "map (\<lambda>i. f (pl ! i)) [0..<length pl] = map f pl"
  by (rule nth_equalityI) auto

lemma Fit_Polydata_eq:
  assumes "0 \<le> n" and "pl \<noteq> []" and "length pl \<le> length (files s)"
  shows "Fit_Polydata lib s model pl n =
           (s\<lparr>fitted_coefficients := Some (A2 (map (fitted_params lib model (nat n)) pl)),
              Fitted_Model_Coefficients_txt := Some (map (fitted_params lib model (nat n)) pl),
              Files_Fitted_txt := Some (files s)\<rparr>, None)"
proof -
  have z: "np_zeros n = Inr (A1 (replicate (nat n) 0))" using assms(1) by (simp add: np_zeros_def)
  have "fit_loop lib (files s) model pl (nat n) [0..<length pl] (A1 (replicate (nat n) 0)) =
          Inr (A2 (replicate (nat n) 0 # map (\<lambda>i. fitted_params lib model (nat n) (pl ! i)) [0..<length pl]))"
    using assms(2,3) by (intro fit_loop_A1) auto
  then have l: "fit_loop lib (files s) model pl (nat n) [0..<length pl] (A1 (replicate (nat n) 0)) =
          Inr (A2 (replicate (nat n) 0 # map (fitted_params lib model (nat n)) pl))"
    by (simp only: map_nth_upt)
  show ?thesis
    by (simp add: Fit_Polydata_def z l np_delete_first_def np_savetxt_def)
qed

lemma Fit_Polydata_negative: "n < 0 \<Longrightarrow> Fit_Polydata lib s model pl n = (s, Some ValueError)"
  by (simp add: Fit_Polydata_def np_zeros_def)

definition training_surfaces :: "('m, 'pm) pca_vtk \<Rightarrow> string \<Rightarrow> 'm list" where
  "training_surfaces lib d = map (read_surface lib d) (usable_files lib d)"

lemma Load_fst:
  "fst (Load_Surface_From_Directory lib s d) = s\<lparr>num_tuples := NumEVs s, files := usable_files lib d\<rparr>"
  by (simp only: Load_Surface_From_Directory_eq fst_conv)

lemma Load_snd:
  "snd (Load_Surface_From_Directory lib s d) =
     (if length (remdups (map (GetNumberOfPoints lib) (training_surfaces lib d))) \<noteq> 1
      then Inl ValueError
      else Inr (training_surfaces lib d, training_surfaces lib d))"
  by (simp only: Load_Surface_From_Directory_eq snd_conv training_surfaces_def)

lemma Load_success:
  assumes "snd (Load_Surface_From_Directory lib s d) = Inr (pl, bs)"
  shows "pl = training_surfaces lib d" and "bs = pl" and "pl \<noteq> []"
    and "\<forall>a\<in>set pl. \<forall>b\<in>set pl. GetNumberOfPoints lib a = GetNumberOfPoints lib b"
proof -
  have one: "length (remdups (map (GetNumberOfPoints lib) (training_surfaces lib d))) = 1"
    using assms by (simp add: Load_snd split: if_splits)
  show pl: "pl = training_surfaces lib d" and "bs = pl"
    using assms by (auto simp: Load_snd split: if_splits)
  note both = remdups_one_iff [THEN iffD1, OF one]
  note ne = conjunct1 [OF both] and eq = conjunct2 [OF both]
  show "pl \<noteq> []" unfolding pl using ne by simp
  show "\<forall>a\<in>set pl. \<forall>b\<in>set pl. GetNumberOfPoints lib a = GetNumberOfPoints lib b"
    unfolding pl using eq by (metis image_eqI list.set_map)
qed

lemma Load_failure:
  assumes "training_surfaces lib d = [] \<or>
           (\<exists>a\<in>set (training_surfaces lib d). \<exists>b\<in>set (training_surfaces lib d).
              GetNumberOfPoints lib a \<noteq> GetNumberOfPoints lib b)"
  shows "snd (Load_Surface_From_Directory lib s d) = Inl ValueError"
proof -
  have "length (remdups (map (GetNumberOfPoints lib) (training_surfaces lib d))) \<noteq> 1"
  proof
    assume "length (remdups (map (GetNumberOfPoints lib) (training_surfaces lib d))) = 1"
    note both = remdups_one_iff [THEN iffD1, OF this]
    from conjunct1 [OF both] have "training_surfaces lib d \<noteq> []" by simp
    moreover from conjunct2 [OF both]
    have "\<not> (\<exists>a\<in>set (training_surfaces lib d). \<exists>b\<in>set (training_surfaces lib d).
              GetNumberOfPoints lib a \<noteq> GetNumberOfPoints lib b)"
      by (metis image_eqI list.set_map)
    ultimately show False using assms by blast
  qed
  then show ?thesis by (simp add: Load_snd)
qed

lemma Load_ok:
  assumes "training_surfaces lib d \<noteq> []"
    and "\<forall>a\<in>set (training_surfaces lib d). \<forall>b\<in>set (training_surfaces lib d).
              GetNumberOfPoints lib a = GetNumberOfPoints lib b"
  shows "snd (Load_Surface_From_Directory lib s d) =
           Inr (training_surfaces lib d, training_surfaces lib d)"
proof -
  have "length (remdups (map (GetNumberOfPoints lib) (training_surfaces lib d))) = 1"
  proof (rule remdups_one_iff [THEN iffD2], intro conjI ballI)
    show "map (GetNumberOfPoints lib) (training_surfaces lib d) \<noteq> []"
      using assms(1) by simp
  next
    fix a b
    assume "a \<in> set (map (GetNumberOfPoints lib) (training_surfaces lib d))"
      and "b \<in> set (map (GetNumberOfPoints lib) (training_surfaces lib d))"
    then obtain p q where "p \<in> set (training_surfaces lib d)" "a = GetNumberOfPoints lib p"
      "q \<in> set (training_surfaces lib d)" "b = GetNumberOfPoints lib q"
      by auto
    then show "a = b" using assms(2) by blast
  qed
  then show ?thesis by (simp add: Load_snd)
qed

lemma sorted_usable_files:
  "sorted_wrt (\<lambda>a b. \<not> key_lt (alphanum_key b) (alphanum_key a)) (usable_files lib d)"
  unfolding usable_files_def by (intro sorted_wrt_filter sorted_list_sort)

lemma onPCAFittingButtonClicked_eq:
  assumes "Directory_Input_Surfaces_Fitting s = Some d" and "pca_model s = Some model"
    and "fitting_output_directory_path s = Some out"
  shows "onPCAFittingButtonClicked lib s =
     (case snd (Load_Surface_From_Directory lib s d) of
        Inl e \<Rightarrow> (fst (Load_Surface_From_Directory lib s d), Some e)
      | Inr (pl, bs) \<Rightarrow>
          Fit_Polydata lib ((fst (Load_Surface_From_Directory lib s d))\<lparr>polydata_list := pl\<rparr>)
            model pl (NumEVs s))"
  using assms
  by (simp add: onPCAFittingButtonClicked_def case_prod_beta Load_fst split: sum.splits)

lemma fitting_run:
  assumes "onPCAFittingButtonClicked lib s = (s', None)"
  shows "\<exists>d model. Directory_Input_Surfaces_Fitting s = Some d \<and> pca_model s = Some model \<and>
           0 \<le> NumEVs s \<and> training_surfaces lib d \<noteq> [] \<and>
           s' = s\<lparr>num_tuples := NumEVs s, files := usable_files lib d,
                  polydata_list := training_surfaces lib d,
                  fitted_coefficients :=
                    Some (A2 (map (fitted_params lib model (nat (NumEVs s))) (training_surfaces lib d))),
                  Fitted_Model_Coefficients_txt :=
                    Some (map (fitted_params lib model (nat (NumEVs s))) (training_surfaces lib d)),
                  Files_Fitted_txt := Some (usable_files lib d)\<rparr>"
proof -
  from assms obtain d where d: "Directory_Input_Surfaces_Fitting s = Some d"
    by (cases "Directory_Input_Surfaces_Fitting s") (simp_all add: onPCAFittingButtonClicked_def)
  from assms d obtain model where m: "pca_model s = Some model"
    by (cases "pca_model s") (simp_all add: onPCAFittingButtonClicked_def)
  from assms d m obtain out where out: "fitting_output_directory_path s = Some out"
    by (cases "fitting_output_directory_path s") (simp_all add: onPCAFittingButtonClicked_def)
  note run = assms [unfolded onPCAFittingButtonClicked_eq [OF d m out]]
  let ?s1 = "fst (Load_Surface_From_Directory lib s d)"
  obtain pl bs where r: "snd (Load_Surface_From_Directory lib s d) = Inr (pl, bs)"
    using run by (cases "snd (Load_Surface_From_Directory lib s d)") auto
  note L = Load_success [OF r]
  have fit: "Fit_Polydata lib (?s1\<lparr>polydata_list := pl\<rparr>) model pl (NumEVs s) = (s', None)"
    using run r by simp
  have nonneg: "0 \<le> NumEVs s"
  proof (rule ccontr)
    assume "\<not> 0 \<le> NumEVs s"
    then have "Fit_Polydata lib (?s1\<lparr>polydata_list := pl\<rparr>) model pl (NumEVs s)
                 = (?s1\<lparr>polydata_list := pl\<rparr>, Some ValueError)"
      by (simp add: Fit_Polydata_negative)
    with fit show False by simp
  qed
  have len: "length pl \<le> length (files (?s1\<lparr>polydata_list := pl\<rparr>))"
    using L(1) by (simp add: Load_fst training_surfaces_def)
  have "s' = ?s1\<lparr>polydata_list := pl,
              fitted_coefficients := Some (A2 (map (fitted_params lib model (nat (NumEVs s))) pl)),
              Fitted_Model_Coefficients_txt := Some (map (fitted_params lib model (nat (NumEVs s))) pl),
              Files_Fitted_txt := Some (files ?s1)\<rparr>"
    using fit Fit_Polydata_eq [OF nonneg L(3) len, of lib model] by simp
  then have "s' = s\<lparr>num_tuples := NumEVs s, files := usable_files lib d,
                  polydata_list := training_surfaces lib d,
                  fitted_coefficients :=
                    Some (A2 (map (fitted_params lib model (nat (NumEVs s))) (training_surfaces lib d))),
                  Fitted_Model_Coefficients_txt :=
                    Some (map (fitted_params lib model (nat (NumEVs s))) (training_surfaces lib d)),
                  Files_Fitted_txt := Some (usable_files lib d)\<rparr>"
    by (simp add: Load_fst L(1))
  moreover have "training_surfaces lib d \<noteq> []" using L(1,3) by simp
  ultimately show ?thesis using d m nonneg by blast
qed

lemma apply_coefficients_fields:
  "NumEVs (apply_coefficients lib s) = NumEVs s"
  "pca_model (apply_coefficients lib s) = pca_model s"
  "polydata_list (apply_coefficients lib s) = polydata_list s"
  "files (apply_coefficients lib s) = files s"
  by (simp_all add: apply_coefficients_def split: option.splits)

lemma onCompute_build_eq:
  assumes "directory_path s = Some d" and "\<not> Already_Running s"
    and "pca_model s = None \<or> New_Folder_Selected s \<or> New_Transform_Selected s"
  shows "PCA_Kinematics_onCompute lib s =
     (let s0 = s\<lparr>Already_Running := True, New_Folder_Selected := False,
                   New_Transform_Selected := False\<rparr>
      in case snd (Load_Surface_From_Directory lib s0 d) of
           Inl e \<Rightarrow> (fst (Load_Surface_From_Directory lib s0 d), Some e)
         | Inr (pl, bs) \<Rightarrow>
             (apply_coefficients lib
                ((fst (Load_Surface_From_Directory lib s0 d))
                   \<lparr>polydata_list := pl, NumEVs := int (length pl) - 1,
                     pca_model := Some (vtkPCAAnalysisFilter lib bs),
                     output_shape := (case pl of [] \<Rightarrow> None | p # _ \<Rightarrow> Some p)\<rparr>), None))"
  using assms
  by (auto simp: PCA_Kinematics_onCompute_def case_prod_beta Let_def split: sum.splits)

lemma onCompute_build_failure:
  assumes "directory_path s = Some d" and "\<not> Already_Running s"
    and "pca_model s = None \<or> New_Folder_Selected s \<or> New_Transform_Selected s"
    and "training_surfaces lib d = [] \<or>
           (\<exists>a\<in>set (training_surfaces lib d). \<exists>b\<in>set (training_surfaces lib d).
              GetNumberOfPoints lib a \<noteq> GetNumberOfPoints lib b)"
  shows "PCA_Kinematics_onCompute lib s =
           (s\<lparr>Already_Running := True, New_Folder_Selected := False,
               New_Transform_Selected := False, num_tuples := NumEVs s,
               files := usable_files lib d\<rparr>, Some ValueError)"
  by (simp add: onCompute_build_eq [OF assms(1-3)] Load_failure [OF assms(4)] Load_fst)

lemma onCompute_build_success:
  assumes "directory_path s = Some d" and "\<not> Already_Running s"
    and "pca_model s = None \<or> New_Folder_Selected s \<or> New_Transform_Selected s"
    and "training_surfaces lib d \<noteq> []"
    and "\<forall>a\<in>set (training_surfaces lib d). \<forall>b\<in>set (training_surfaces lib d).
              GetNumberOfPoints lib a = GetNumberOfPoints lib b"
  shows "PCA_Kinematics_onCompute lib s =
           (apply_coefficients lib
              (s\<lparr>Already_Running := True, New_Folder_Selected := False,
                 New_Transform_Selected := False, num_tuples := NumEVs s,
                 files := usable_files lib d,
                 polydata_list := training_surfaces lib d,
                 NumEVs := int (length (training_surfaces lib d)) - 1,
                 pca_model := Some (vtkPCAAnalysisFilter lib (training_surfaces lib d)),
                 output_shape := Some (hd (training_surfaces lib d))\<rparr>), None)"
proof -
  have "(case training_surfaces lib d of [] \<Rightarrow> None | p # _ \<Rightarrow> Some p)
          = Some (hd (training_surfaces lib d))"
    using assms(4) by (cases "training_surfaces lib d") auto
  then show ?thesis
    by (simp add: onCompute_build_eq [OF assms(1-3)] Load_ok [OF assms(4,5)] Load_fst)
qed

text \<open>A concrete instance: a surface is represented by its number of points, the model by
  the list of its training surfaces.\<close>

definition example_vtk :: "(nat, nat list) pca_vtk" where
  "example_vtk =
     \<lparr> listdir = (\<lambda>d. if d = ''train'' then [''pos10.ply'', ''pos2.ply'', ''readme.txt'', ''pos1.stl'']
                      else if d = ''fit'' then [''f10.ply'', ''f9.ply'']
                      else if d = ''mixed'' then [''c1.ply'', ''c2.ply'']
                      else [''notes.txt'']),
       vtkSTLReader = (\<lambda>p. 4),
       vtkPLYReader = (\<lambda>p. if p = ''mixed/c2.ply'' then 7 else 4),
       GetNumberOfPoints = (\<lambda>m. m),
       vtkPCAAnalysisFilter = (\<lambda>ms. ms),
       GetShapeParameters = (\<lambda>model m n k. real m + real k),
       GetParameterisedShape = (\<lambda>model coeffs shape. shape) \<rparr>"

definition example_widget :: "string \<Rightarrow> (nat, nat list) PCA_KinematicsWidget" where
  "example_widget d =
     \<lparr> NumEVs = 5, num_tuples = 0, pca_model = None, polydata_list = [], files = [],
       New_Folder_Selected = True, New_Transform_Selected = False, Already_Running = False,
       directory_path = Some d, Directory_Input_Surfaces_Fitting = Some ''fit'',
       fitting_output_directory_path = Some ''out'', fitted_coefficients = None,
       output_shape = None, EV_sliders = [0, 0, 0, 0, 0],
       Fitted_Model_Coefficients_txt = None, Files_Fitted_txt = None \<rparr>"

lemma example_usable_files:
  "usable_files example_vtk ''train'' = [''pos1.stl'', ''pos2.ply'', ''pos10.ply'']"
  "usable_files example_vtk ''fit'' = [''f9.ply'', ''f10.ply'']"
  "usable_files example_vtk ''mixed'' = [''c1.ply'', ''c2.ply'']"
  "usable_files example_vtk ''none'' = []"
  by (simp_all add: usable_files_def example_vtk_def list_sort_def alphanum_key_def
      re_split_digits_def is_digit_def tryint_def py_int_def strip_def is_space_def
      decimal_def digit_value_def is_surface_def last3_def)

lemma example_training_surfaces:
  "training_surfaces example_vtk ''train'' = [4, 4, 4]"
  "training_surfaces example_vtk ''fit'' = [4, 4]"
  "training_surfaces example_vtk ''mixed'' = [4, 7]"
  "training_surfaces example_vtk ''none'' = []"
  by (simp_all add: training_surfaces_def example_usable_files read_surface_def last3_def
      path_join_def) (simp_all add: example_vtk_def)

text \<open>
  Claim C7.  A fitting run that completes exports a coefficient table with exactly one row
  per loaded input surface, in the natural-sorted order of the file names; the row of zeros
  that initialises the array is not in the exported table; and \<^verbatim>\<open>Files_Fitted.txt\<close> lists the
  file names in the same order as the rows.  Here \<open>usable_files lib d\<close> is the sorted listing
  restricted to the \<^verbatim>\<open>.stl\<close>/\<^verbatim>\<open>.ply\<close> files, the table is the image of that very list, row by
  row, and the list is ordered by \<open>alphanum_key\<close>.
\<close>

theorem fitted_coefficient_export:
  assumes "onPCAFittingButtonClicked lib s = (s', None)"
  shows "\<exists>d model. Directory_Input_Surfaces_Fitting s = Some d \<and> pca_model s = Some model \<and>
           polydata_list s' = map (read_surface lib d) (usable_files lib d) \<and>
           Files_Fitted_txt s' = Some (usable_files lib d) \<and>
           Fitted_Model_Coefficients_txt s' =
             Some (map (\<lambda>f. fitted_params lib model (nat (NumEVs s)) (read_surface lib d f))
                    (usable_files lib d)) \<and>
           usable_files lib d = filter is_surface (list_sort alphanum_key (listdir lib d)) \<and>
           sorted_wrt (\<lambda>a b. \<not> key_lt (alphanum_key b) (alphanum_key a)) (usable_files lib d)"
proof -
  from fitting_run [OF assms] obtain d model where
    d: "Directory_Input_Surfaces_Fitting s = Some d" and m: "pca_model s = Some model" and
    s': "s' = s\<lparr>num_tuples := NumEVs s, files := usable_files lib d,
                  polydata_list := training_surfaces lib d,
                  fitted_coefficients :=
                    Some (A2 (map (fitted_params lib model (nat (NumEVs s))) (training_surfaces lib d))),
                  Fitted_Model_Coefficients_txt :=
                    Some (map (fitted_params lib model (nat (NumEVs s))) (training_surfaces lib d)),
                  Files_Fitted_txt := Some (usable_files lib d)\<rparr>"
    by blast
  have "polydata_list s' = map (read_surface lib d) (usable_files lib d)"
    by (simp add: s' training_surfaces_def)
  moreover have "Files_Fitted_txt s' = Some (usable_files lib d)"
    by (simp add: s')
  moreover have "Fitted_Model_Coefficients_txt s' =
             Some (map (\<lambda>f. fitted_params lib model (nat (NumEVs s)) (read_surface lib d f))
                    (usable_files lib d))"
    by (simp add: s' training_surfaces_def comp_def)
  ultimately show ?thesis
    using d m sorted_usable_files [of lib d] usable_files_def [of lib d] by blast
qed

theorem fitted_coefficient_export_witness:
  "Files_Fitted_txt (fst (onPCAFittingButtonClicked example_vtk
       ((example_widget ''train'')\<lparr>pca_model := Some [4, 4, 4], NumEVs := 2\<rparr>)))
     = Some [''f9.ply'', ''f10.ply'']
   \<and> Fitted_Model_Coefficients_txt (fst (onPCAFittingButtonClicked example_vtk
       ((example_widget ''train'')\<lparr>pca_model := Some [4, 4, 4], NumEVs := 2\<rparr>)))
     = Some [[4, 5], [4, 5]]"
proof -
  let ?s = "(example_widget ''train'')\<lparr>pca_model := Some [4, 4, 4], NumEVs := 2\<rparr>"
  have d: "Directory_Input_Surfaces_Fitting ?s = Some ''fit''" and m: "pca_model ?s = Some [4, 4, 4]"
    and out: "fitting_output_directory_path ?s = Some ''out''" and n: "NumEVs ?s = 2"
    by (simp_all add: example_widget_def)
  have ok: "snd (Load_Surface_From_Directory example_vtk ?s ''fit'') = Inr ([4, 4], [4, 4])"
    by (simp add: Load_snd example_training_surfaces)
  have "snd (onPCAFittingButtonClicked example_vtk ?s) = None"
    by (simp add: onPCAFittingButtonClicked_eq [OF d m out] ok n Load_fst Fit_Polydata_eq
        example_usable_files)
  then have run: "onPCAFittingButtonClicked example_vtk ?s
                    = (fst (onPCAFittingButtonClicked example_vtk ?s), None)"
    by (metis prod.collapse)
  from fitted_coefficient_export [OF run] d m
  have "Files_Fitted_txt (fst (onPCAFittingButtonClicked example_vtk ?s))
          = Some (usable_files example_vtk ''fit'')"
    and "Fitted_Model_Coefficients_txt (fst (onPCAFittingButtonClicked example_vtk ?s)) =
             Some (map (\<lambda>f. fitted_params example_vtk [4, 4, 4] (nat (NumEVs ?s))
                     (read_surface example_vtk ''fit'' f)) (usable_files example_vtk ''fit''))"
    by auto
  then show ?thesis
    by (simp add: example_usable_files n fitted_params_def read_surface_def last3_def path_join_def)
       (simp add: example_vtk_def numeral_2_eq_2)
qed

lemma onCompute_returns:
  assumes "PCA_Kinematics_onCompute lib s = (s1, None)" and "\<not> Already_Running s"
    and "pca_model s = None \<or> New_Folder_Selected s \<or> New_Transform_Selected s"
  shows "\<exists>d. directory_path s = Some d \<and> training_surfaces lib d \<noteq> [] \<and>
           polydata_list s1 = training_surfaces lib d \<and>
           NumEVs s1 = int (length (training_surfaces lib d)) - 1 \<and>
           pca_model s1 = Some (vtkPCAAnalysisFilter lib (training_surfaces lib d))"
proof -
  from assms(1) obtain d where d: "directory_path s = Some d"
    by (cases "directory_path s") (simp_all add: PCA_Kinematics_onCompute_def)
  let ?s0 = "s\<lparr>Already_Running := True, New_Folder_Selected := False,
                 New_Transform_Selected := False\<rparr>"
  note run = assms(1) [unfolded onCompute_build_eq [OF d assms(2,3)] Let_def]
  obtain pl bs where r: "snd (Load_Surface_From_Directory lib ?s0 d) = Inr (pl, bs)"
    using run by (cases "snd (Load_Surface_From_Directory lib ?s0 d)") auto
  note L = Load_success [OF r]
  have "s1 = apply_coefficients lib
                ((fst (Load_Surface_From_Directory lib ?s0 d))
                   \<lparr>polydata_list := pl, NumEVs := int (length pl) - 1,
                     pca_model := Some (vtkPCAAnalysisFilter lib bs),
                     output_shape := (case pl of [] \<Rightarrow> None | p # _ \<Rightarrow> Some p)\<rparr>)"
    using run r by simp
  then have "polydata_list s1 = pl" and "NumEVs s1 = int (length pl) - 1"
    and "pca_model s1 = Some (vtkPCAAnalysisFilter lib bs)"
    by (simp_all add: apply_coefficients_fields)
  then show ?thesis using d L(1,2,3) by simp
qed

text \<open>
  Claim C10.  After a model build from a directory with \<open>N\<close> loaded training surfaces
  (\<open>N = length (polydata_list s1)\<close>), the number of shape modes is \<open>N - 1\<close>, a following
  fitting run uses that number, and every row of the coefficient table it writes has exactly
  \<open>N - 1\<close> entries.
\<close>

theorem fitting_mode_count:
  assumes "PCA_Kinematics_onCompute lib s = (s1, None)" and "\<not> Already_Running s"
    and "pca_model s = None \<or> New_Folder_Selected s \<or> New_Transform_Selected s"
    and "onPCAFittingButtonClicked lib' s1 = (s2, None)"
  shows "(\<exists>d. directory_path s = Some d \<and>
              polydata_list s1 = map (read_surface lib d) (usable_files lib d)) \<and>
         polydata_list s1 \<noteq> [] \<and>
         NumEVs s1 = int (length (polydata_list s1)) - 1 \<and>
         num_tuples s2 = int (length (polydata_list s1)) - 1 \<and>
         (\<exists>rows. Fitted_Model_Coefficients_txt s2 = Some rows \<and>
                 length rows = length (polydata_list s2) \<and>
                 list_all (\<lambda>row. length row = length (polydata_list s1) - 1) rows)"
proof -
  from onCompute_returns [OF assms(1-3)] obtain d where
    d: "directory_path s = Some d" and ne: "training_surfaces lib d \<noteq> []"
    and pl: "polydata_list s1 = training_surfaces lib d"
    and n: "NumEVs s1 = int (length (training_surfaces lib d)) - 1"
    by blast
  from fitting_run [OF assms(4)] obtain d' model where
    s2: "s2 = s1\<lparr>num_tuples := NumEVs s1, files := usable_files lib' d',
                  polydata_list := training_surfaces lib' d',
                  fitted_coefficients :=
                    Some (A2 (map (fitted_params lib' model (nat (NumEVs s1))) (training_surfaces lib' d'))),
                  Fitted_Model_Coefficients_txt :=
                    Some (map (fitted_params lib' model (nat (NumEVs s1))) (training_surfaces lib' d')),
                  Files_Fitted_txt := Some (usable_files lib' d')\<rparr>"
    by blast
  let ?rows = "map (fitted_params lib' model (nat (NumEVs s1))) (training_surfaces lib' d')"
  have "Fitted_Model_Coefficients_txt s2 = Some ?rows" by (simp add: s2)
  moreover have "length ?rows = length (polydata_list s2)" by (simp add: s2)
  moreover have "list_all (\<lambda>row. length row = length (polydata_list s1) - 1) ?rows"
    using n pl by (simp add: list_all_iff length_fitted_params nat_diff_distrib')
  moreover have "num_tuples s2 = int (length (polydata_list s1)) - 1"
    using n pl by (simp add: s2)
  moreover have "polydata_list s1 = map (read_surface lib d) (usable_files lib d)"
    using pl by (simp add: training_surfaces_def)
  ultimately show ?thesis using d ne pl n by auto
qed

lemma apply_coefficients_paths:
  "Directory_Input_Surfaces_Fitting (apply_coefficients lib s) = Directory_Input_Surfaces_Fitting s"
  "fitting_output_directory_path (apply_coefficients lib s) = fitting_output_directory_path s"
  by (simp_all add: apply_coefficients_def split: option.splits)

lemma example_build:
  "PCA_Kinematics_onCompute example_vtk (example_widget ''train'') =
     (fst (PCA_Kinematics_onCompute example_vtk (example_widget ''train'')), None)"
  "NumEVs (fst (PCA_Kinematics_onCompute example_vtk (example_widget ''train''))) = 2"
  "pca_model (fst (PCA_Kinematics_onCompute example_vtk (example_widget ''train''))) = Some [4, 4, 4]"
  "Directory_Input_Surfaces_Fitting
     (fst (PCA_Kinematics_onCompute example_vtk (example_widget ''train''))) = Some ''fit''"
  "fitting_output_directory_path
     (fst (PCA_Kinematics_onCompute example_vtk (example_widget ''train''))) = Some ''out''"
proof -
  have d: "directory_path (example_widget ''train'') = Some ''train''"
    and r: "\<not> Already_Running (example_widget ''train'')"
    and c: "pca_model (example_widget ''train'') = None
            \<or> New_Folder_Selected (example_widget ''train'')
            \<or> New_Transform_Selected (example_widget ''train'')"
    by (simp_all add: example_widget_def)
  have ne: "training_surfaces example_vtk ''train'' \<noteq> []"
    by (simp add: example_training_surfaces)
  have eq: "\<forall>a\<in>set (training_surfaces example_vtk ''train'').
            \<forall>b\<in>set (training_surfaces example_vtk ''train'').
              GetNumberOfPoints example_vtk a = GetNumberOfPoints example_vtk b"
    by (simp add: example_training_surfaces)
  note b = onCompute_build_success [OF d r c ne eq]
  show "PCA_Kinematics_onCompute example_vtk (example_widget ''train'') =
     (fst (PCA_Kinematics_onCompute example_vtk (example_widget ''train'')), None)"
    by (simp add: b)
  show "NumEVs (fst (PCA_Kinematics_onCompute example_vtk (example_widget ''train''))) = 2"
    by (simp add: b apply_coefficients_fields example_training_surfaces)
  show "pca_model (fst (PCA_Kinematics_onCompute example_vtk (example_widget ''train''))) = Some [4, 4, 4]"
    by (simp add: b apply_coefficients_fields example_training_surfaces) (simp add: example_vtk_def)
  show "Directory_Input_Surfaces_Fitting
     (fst (PCA_Kinematics_onCompute example_vtk (example_widget ''train''))) = Some ''fit''"
    by (simp add: b apply_coefficients_paths) (simp add: example_widget_def)
  show "fitting_output_directory_path
     (fst (PCA_Kinematics_onCompute example_vtk (example_widget ''train''))) = Some ''out''"
    by (simp add: b apply_coefficients_paths) (simp add: example_widget_def)
qed

theorem fitting_mode_count_witness:
  "NumEVs (fst (PCA_Kinematics_onCompute example_vtk (example_widget ''train''))) = 3 - 1
   \<and> (\<exists>rows. Fitted_Model_Coefficients_txt
         (fst (onPCAFittingButtonClicked example_vtk
            (fst (PCA_Kinematics_onCompute example_vtk (example_widget ''train''))))) = Some rows
        \<and> list_all (\<lambda>row. length row = 3 - 1) rows)"
proof -
  let ?s = "example_widget ''train''"
  let ?s1 = "fst (PCA_Kinematics_onCompute example_vtk ?s)"
  have ok: "snd (Load_Surface_From_Directory example_vtk ?s1 ''fit'') = Inr ([4, 4], [4, 4])"
    by (simp add: Load_snd example_training_surfaces)
  have "snd (onPCAFittingButtonClicked example_vtk ?s1) = None"
    by (simp add: onPCAFittingButtonClicked_eq [OF example_build(4) example_build(3) example_build(5)]
        ok example_build(2) Load_fst Fit_Polydata_eq example_usable_files)
  then have fit: "onPCAFittingButtonClicked example_vtk ?s1
                    = (fst (onPCAFittingButtonClicked example_vtk ?s1), None)"
    by (metis prod.collapse)
  have r: "\<not> Already_Running ?s"
    and c: "pca_model ?s = None \<or> New_Folder_Selected ?s \<or> New_Transform_Selected ?s"
    by (simp_all add: example_widget_def)
  note t = fitting_mode_count [OF example_build(1) r c fit]
  have len: "length (polydata_list ?s1) = 3"
    using t example_build(2) by linarith
  from t obtain rows where
    "Fitted_Model_Coefficients_txt (fst (onPCAFittingButtonClicked example_vtk ?s1)) = Some rows"
    and "list_all (\<lambda>row. length row = length (polydata_list ?s1) - 1) rows"
    by blast
  then show ?thesis using example_build(2) by (auto simp: len)
qed

lemma pca_filter_irrelevant:
  "training_surfaces (lib\<lparr>vtkPCAAnalysisFilter := f\<rparr>) d = training_surfaces lib d"
  "usable_files (lib\<lparr>vtkPCAAnalysisFilter := f\<rparr>) d = usable_files lib d"
  "GetNumberOfPoints (lib\<lparr>vtkPCAAnalysisFilter := f\<rparr>) = GetNumberOfPoints lib"
  by (simp_all add: training_surfaces_def usable_files_def read_surface_def)

text \<open>
  Claim C4, as amended.  When a model build loads surfaces of which two differ in their number
  of points, or loads no surface at all, \<^verbatim>\<open>ValueError\<close> is raised before the PCA filter runs:
  the stored model and the number of modes are unchanged, and the outcome does not depend on
  the PCA filter at all.  When at least one surface is loaded and all point counts are equal,
  no error is raised and the model is the PCA of the loaded surfaces.
\<close>

theorem build_point_count_check:
  assumes "directory_path s = Some d" and "\<not> Already_Running s"
    and "pca_model s = None \<or> New_Folder_Selected s \<or> New_Transform_Selected s"
  shows "((training_surfaces lib d = [] \<or>
           (\<exists>a\<in>set (training_surfaces lib d). \<exists>b\<in>set (training_surfaces lib d).
              GetNumberOfPoints lib a \<noteq> GetNumberOfPoints lib b)) \<longrightarrow>
            snd (PCA_Kinematics_onCompute lib s) = Some ValueError \<and>
            pca_model (fst (PCA_Kinematics_onCompute lib s)) = pca_model s \<and>
            NumEVs (fst (PCA_Kinematics_onCompute lib s)) = NumEVs s \<and>
            (\<forall>f. PCA_Kinematics_onCompute (lib\<lparr>vtkPCAAnalysisFilter := f\<rparr>) s
                   = PCA_Kinematics_onCompute lib s))
       \<and> ((training_surfaces lib d \<noteq> [] \<and>
            (\<forall>a\<in>set (training_surfaces lib d). \<forall>b\<in>set (training_surfaces lib d).
               GetNumberOfPoints lib a = GetNumberOfPoints lib b)) \<longrightarrow>
            snd (PCA_Kinematics_onCompute lib s) = None \<and>
            pca_model (fst (PCA_Kinematics_onCompute lib s))
              = Some (vtkPCAAnalysisFilter lib (training_surfaces lib d)))"
proof (intro conjI impI allI)
  assume bad: "training_surfaces lib d = [] \<or>
           (\<exists>a\<in>set (training_surfaces lib d). \<exists>b\<in>set (training_surfaces lib d).
              GetNumberOfPoints lib a \<noteq> GetNumberOfPoints lib b)"
  note f = onCompute_build_failure [OF assms bad]
  show "snd (PCA_Kinematics_onCompute lib s) = Some ValueError" by (simp add: f)
  show "pca_model (fst (PCA_Kinematics_onCompute lib s)) = pca_model s" by (simp add: f)
  show "NumEVs (fst (PCA_Kinematics_onCompute lib s)) = NumEVs s" by (simp add: f)
  fix g
  have bad': "training_surfaces (lib\<lparr>vtkPCAAnalysisFilter := g\<rparr>) d = [] \<or>
           (\<exists>a\<in>set (training_surfaces (lib\<lparr>vtkPCAAnalysisFilter := g\<rparr>) d).
            \<exists>b\<in>set (training_surfaces (lib\<lparr>vtkPCAAnalysisFilter := g\<rparr>) d).
              GetNumberOfPoints (lib\<lparr>vtkPCAAnalysisFilter := g\<rparr>) a
                \<noteq> GetNumberOfPoints (lib\<lparr>vtkPCAAnalysisFilter := g\<rparr>) b)"
    using bad by (simp only: pca_filter_irrelevant)
  show "PCA_Kinematics_onCompute (lib\<lparr>vtkPCAAnalysisFilter := g\<rparr>) s
          = PCA_Kinematics_onCompute lib s"
    by (simp only: f onCompute_build_failure [OF assms bad'] pca_filter_irrelevant)
next
  assume good: "training_surfaces lib d \<noteq> [] \<and>
            (\<forall>a\<in>set (training_surfaces lib d). \<forall>b\<in>set (training_surfaces lib d).
               GetNumberOfPoints lib a = GetNumberOfPoints lib b)"
  note g = onCompute_build_success [OF assms conjunct1 [OF good] conjunct2 [OF good]]
  show "snd (PCA_Kinematics_onCompute lib s) = None" by (simp add: g)
  show "pca_model (fst (PCA_Kinematics_onCompute lib s))
          = Some (vtkPCAAnalysisFilter lib (training_surfaces lib d))"
    by (simp add: g apply_coefficients_fields)
qed

theorem build_point_count_check_witness:
  "snd (PCA_Kinematics_onCompute example_vtk (example_widget ''mixed'')) = Some ValueError
   \<and> pca_model (fst (PCA_Kinematics_onCompute example_vtk (example_widget ''mixed''))) = None
   \<and> snd (PCA_Kinematics_onCompute example_vtk (example_widget ''train'')) = None
   \<and> pca_model (fst (PCA_Kinematics_onCompute example_vtk (example_widget ''train'')))
       = Some [4, 4, 4]"
proof -
  have d: "directory_path (example_widget x) = Some x"
    and r: "\<not> Already_Running (example_widget x)"
    and c: "pca_model (example_widget x) = None
            \<or> New_Folder_Selected (example_widget x)
            \<or> New_Transform_Selected (example_widget x)"
    and m: "pca_model (example_widget x) = None" for x
    by (simp_all add: example_widget_def)
  have bad: "training_surfaces example_vtk ''mixed'' = [] \<or>
           (\<exists>a\<in>set (training_surfaces example_vtk ''mixed'').
            \<exists>b\<in>set (training_surfaces example_vtk ''mixed'').
              GetNumberOfPoints example_vtk a \<noteq> GetNumberOfPoints example_vtk b)"
    by (simp add: example_training_surfaces) (simp add: example_vtk_def)
  have good: "training_surfaces example_vtk ''train'' \<noteq> [] \<and>
            (\<forall>a\<in>set (training_surfaces example_vtk ''train'').
             \<forall>b\<in>set (training_surfaces example_vtk ''train'').
               GetNumberOfPoints example_vtk a = GetNumberOfPoints example_vtk b)"
    by (simp add: example_training_surfaces)
  have v: "vtkPCAAnalysisFilter example_vtk (training_surfaces example_vtk ''train'') = [4, 4, 4]"
    by (simp add: example_training_surfaces) (simp add: example_vtk_def)
  note t1 = build_point_count_check [OF d [of "''mixed''"] r c, of example_vtk,
              THEN conjunct1, THEN mp, OF bad]
  note t2 = build_point_count_check [OF d [of "''train''"] r c, of example_vtk,
              THEN conjunct2, THEN mp, OF good]
  have "snd (PCA_Kinematics_onCompute example_vtk (example_widget ''mixed'')) = Some ValueError"
    using t1 by (rule conjunct1)
  moreover have "pca_model (fst (PCA_Kinematics_onCompute example_vtk (example_widget ''mixed''))) = None"
    using t1 [THEN conjunct2, THEN conjunct1] by (simp only: m)
  moreover have "snd (PCA_Kinematics_onCompute example_vtk (example_widget ''train'')) = None"
    using t2 by (rule conjunct1)
  moreover have "pca_model (fst (PCA_Kinematics_onCompute example_vtk (example_widget ''train'')))
       = Some [4, 4, 4]"
    using t2 [THEN conjunct2] by (simp only: v)
  ultimately show ?thesis by (intro conjI)
qed

text \<open>
  The claim C4 as stated (no error whenever all point counts are equal) fails on a directory
  without any surface file: no surface is loaded, so no two surfaces differ, and the build
  still raises
  \<^verbatim>\<open>ValueError\<close>, because the check is that the number of distinct point counts is exactly one.
\<close>

theorem empty_directory_counterexample:
  "training_surfaces example_vtk ''none'' = []
   \<and> snd (PCA_Kinematics_onCompute example_vtk (example_widget ''none'')) = Some ValueError"
proof -
  have d: "directory_path (example_widget ''none'') = Some ''none''"
    and r: "\<not> Already_Running (example_widget ''none'')"
    and c: "pca_model (example_widget ''none'') = None
            \<or> New_Folder_Selected (example_widget ''none'')
            \<or> New_Transform_Selected (example_widget ''none'')"
    by (simp_all add: example_widget_def)
  have e: "training_surfaces example_vtk ''none'' = []"
    by (simp add: example_training_surfaces)
  then have bad: "training_surfaces example_vtk ''none'' = [] \<or>
           (\<exists>a\<in>set (training_surfaces example_vtk ''none'').
            \<exists>b\<in>set (training_surfaces example_vtk ''none'').
              GetNumberOfPoints example_vtk a \<noteq> GetNumberOfPoints example_vtk b)"
    by simp
  show ?thesis
    by (simp add: onCompute_build_failure [OF d r c bad] e)
qed

end
